theory Spec2Isabelle
  imports Complex_Main
begin

section \<open>Model monitoring: the orchestration script monitor.py\<close>

text \<open>
  The script is a sequence of calls into client libraries (the ML platform, the log
  router, object storage, a subprocess). The embedding keeps the script's own control
  flow and string building, and makes everything else explicit:
  \<^item> every call that leaves the script is an \<open>event\<close> appended to a trace, together
    with the answer it got;
  \<^item> the answers come from a \<open>world\<close> and may be an exception;
  \<^item> an exception is a value of type \<open>error\<close>; a function returns \<open>error + 'a\<close>;
  \<^item> the retraining-parameter dictionary is an object in a store, since the script
    passes one and the same dictionary to two functions and writes to it.
  A Python \<open>str\<close> is a \<open>string\<close>: a list of characters with codes below 256.
\<close>

subsection \<open>Python strings\<close>

definition dquote :: char where
  "dquote = CHR 0x22"

definition backslash :: char where
  "backslash = CHR 0x5C"

definition newline :: char where
  "newline = CHR 0x0A"

text \<open>\<open>s.split(sep)\<close> for a one-character separator: never the empty list.\<close>

fun str_split :: "char \<Rightarrow> string \<Rightarrow> string list" where
  "str_split sep [] = [[]]"
| "str_split sep (c # cs) =
     (if c = sep then [] # str_split sep cs
      else (case str_split sep cs of
              [] \<Rightarrow> [[c]]
            | x # xs \<Rightarrow> (c # x) # xs))"

text \<open>\<open>sep.join(xs)\<close>.\<close>

fun str_join :: "string \<Rightarrow> string list \<Rightarrow> string" where
  "str_join sep [] = []"
| "str_join sep [x] = x"
| "str_join sep (x # y # ys) = x @ sep @ str_join sep (y # ys)"

subsection \<open>Values read from the configuration file\<close>

text \<open>
  The values a YAML document and JSON share, without floating-point numbers. A Python
  \<open>dict\<close> is an association list in insertion order; its keys are distinct.
\<close>

datatype json =
    JNull
  | JBool bool
  | JInt int
  | JStr string
  | JList "json list"
  | JDict "(string \<times> json) list"

type_synonym pydict = "(string \<times> json) list"

text \<open>\<open>d[k] = v\<close>: an existing key keeps its place, a new key goes to the end.\<close>

fun dict_setitem :: "('k \<times> 'v) list \<Rightarrow> 'k \<Rightarrow> 'v \<Rightarrow> ('k \<times> 'v) list" where
  "dict_setitem [] k v = [(k, v)]"
| "dict_setitem ((k', v') # d) k v =
     (if k' = k then (k, v) # d else (k', v') # dict_setitem d k v)"

text \<open>Truth value of an optional container: \<open>None\<close> and the empty one are false.\<close>

fun truthy :: "'a list option \<Rightarrow> bool" where
  "truthy None = False"
| "truthy (Some xs) = (xs \<noteq> [])"

subsection \<open>Exceptions\<close>

datatype error =
    ValueError string
  | LibraryError string
  | OSError string "error option"
  | CalledProcessError "string list" int
  | RuntimeError string "error option"

text \<open>
  \<open>LibraryError\<close> is any exception raised inside a client library (a failed remote
  call); the script never catches one. \<open>OSError\<close> and \<open>RuntimeError\<close> carry their
  message and their cause (\<open>raise ... from err\<close>); \<open>CalledProcessError\<close> carries the
  command list and the exit status.
\<close>

subsection \<open>Requests sent to the platform\<close>

text \<open>
  The configuration objects of \<open>model_monitoring\<close>, arguments in this order:
  \<open>SkewDetectionConfig(data_source, skew_thresholds, target_field)\<close>,
  \<open>DriftDetectionConfig(drift_thresholds)\<close>,
  \<open>ObjectiveConfig(skew_detection_config, drift_detection_config, explanation_config)\<close>,
  \<open>RandomSampleConfig(sample_rate)\<close>, \<open>ScheduleConfig(monitor_interval)\<close>,
  \<open>EmailAlertConfig(user_emails, enable_logging)\<close>. A float is a \<open>real\<close>: the script
  only passes it on.
\<close>

datatype skew_detection_config =
  SkewDetectionConfig string "(string \<times> real) list" string

datatype drift_detection_config =
  DriftDetectionConfig "(string \<times> real) list"

datatype explanation_config = ExplanationConfig

datatype objective_config =
  ObjectiveConfig (skew_detection_config: "skew_detection_config option")
                  (drift_detection_config: "drift_detection_config option")
                  (explanation_config: "explanation_config option")

datatype random_sample_config = RandomSampleConfig real

datatype schedule_config = ScheduleConfig int

datatype email_alert_config = EmailAlertConfig "string list" bool

record monitoring_job_args =
  display_name :: string
  logging_sampling_strategy :: random_sample_config
  schedule_config :: schedule_config
  alert_config :: email_alert_config
  objective_configs :: objective_config
  enable_monitoring_pipeline_logs :: bool

record sink =
  name :: string
  filter_ :: string
  destination :: string

datatype stream = DEVNULL | STDOUT | Inherited

subsection \<open>Events, world and store\<close>

text \<open>
  One constructor for each call that leaves the script, with the arguments the script
  passes and, last, the answer. \<open>JobCreate\<close> carries the \<open>project\<close>, \<open>location\<close> and
  \<open>endpoint\<close> arguments after the job's settings; \<open>JobUpdate\<close> starts with the
  identifier the job object is built from. \<open>SubprocessRun\<close> carries the command list,
  \<open>shell\<close>, \<open>check\<close>, \<open>stdout\<close>, \<open>stderr\<close> and the exit status.
\<close>

datatype event =
    AiplatformInit string string
  | EndpointList string "error + string list"
  | EndpointInit string "error + unit"
  | JobList string "error + string list"
  | JobCreate monitoring_job_args string string string "error + string"
  | JobUpdate string monitoring_job_args "error + string"
  | SinkExists string "error + bool"
  | SinkUpdate sink "error + unit"
  | SinkCreate sink "error + unit"
  | FileWrite string string string "string option"
  | GetBucket string "error + unit"
  | UploadFromFilename string string string "error + unit"
  | SubprocessRun "string list" bool bool stream stream int
  | Print string
  | PPrint pydict

record world =
  Endpoint_list :: "string \<Rightarrow> error + string list"
  Endpoint_init :: "string \<Rightarrow> error + unit"
  Job_list :: "string \<Rightarrow> error + string list"
  Job_create :: "monitoring_job_args \<Rightarrow> string \<Rightarrow> string \<Rightarrow> string \<Rightarrow> error + string"
  Job_update :: "string \<Rightarrow> monitoring_job_args \<Rightarrow> error + string"
  sink_exists :: "string \<Rightarrow> error + bool"
  sink_update :: "sink \<Rightarrow> error + unit"
  sink_create :: "sink \<Rightarrow> error + unit"
  file_write :: "string \<Rightarrow> string \<Rightarrow> string \<Rightarrow> string option"
  get_bucket :: "string \<Rightarrow> error + unit"
  upload_from_filename :: "string \<Rightarrow> string \<Rightarrow> string \<Rightarrow> error + unit"
  subprocess_run :: "string list \<Rightarrow> int"
  str_exc :: "error \<Rightarrow> string"

text \<open>
  The world answers each call from its arguments; no function of it is asked twice in
  one run of the script. The lists answered by
  \<open>Endpoint_list\<close> and \<open>Job_list\<close> are the resource names of the matches;
  \<open>Job_create\<close> and \<open>Job_update\<close> answer the resource name of the job;
  \<open>file_write\<close> answers the message of the \<open>OSError\<close> raised while opening or writing,
  if any; \<open>subprocess_run\<close> answers the exit status of the child; \<open>str_exc\<close> is
  \<open>str()\<close> of an exception raised by a library.
\<close>

type_synonym addr = nat

type_synonym store = "addr \<Rightarrow> pydict"

text \<open>
  A piece of the script runs in a store; it gives an exception or a value, the store it
  leaves and the events it added, in order.
\<close>

type_synonym 'a prog = "store \<Rightarrow> (error + 'a) \<times> store \<times> event list"

definition outcome :: "'a prog \<Rightarrow> store \<Rightarrow> error + 'a" where
  "outcome m h = fst (m h)"

definition store_after :: "'a prog \<Rightarrow> store \<Rightarrow> store" where
  "store_after m h = fst (snd (m h))"

definition events :: "'a prog \<Rightarrow> store \<Rightarrow> event list" where
  "events m h = snd (snd (m h))"

definition succeed :: "'a \<Rightarrow> 'a prog" where
  "succeed x = (\<lambda>h. (Inr x, h, []))"

definition raise :: "error \<Rightarrow> 'a prog" where
  "raise e = (\<lambda>h. (Inl e, h, []))"

text \<open>Sequencing: an exception ends the run; the store stays as it was left.\<close>

definition and_then :: "'a prog \<Rightarrow> ('a \<Rightarrow> 'b prog) \<Rightarrow> 'b prog" where
  "and_then m f =
     (\<lambda>h. case m h of
             (Inl e, h', evs) \<Rightarrow> (Inl e, h', evs)
           | (Inr x, h', evs) \<Rightarrow>
               (case f x h' of (r, h'', evs') \<Rightarrow> (r, h'', evs @ evs')))"

text \<open>A call that cannot raise: record the event with the answer, return the answer.\<close>

definition ask :: "'r \<Rightarrow> ('r \<Rightarrow> event) \<Rightarrow> 'r prog" where
  "ask answer ev = (\<lambda>h. (Inr answer, h, [ev answer]))"

text \<open>A call into a client library: its exception, if any, is raised.\<close>

definition call :: "error + 'r \<Rightarrow> (error + 'r \<Rightarrow> event) \<Rightarrow> 'r prog" where
  "call answer ev = (\<lambda>h. (answer, h, [ev answer]))"

definition emit :: "event \<Rightarrow> unit prog" where
  "emit e = (\<lambda>h. (Inr (), h, [e]))"

text \<open>Reading and writing a dictionary object of the store.\<close>

definition getobj :: "addr \<Rightarrow> pydict prog" where
  "getobj a = (\<lambda>h. (Inr (h a), h, []))"

definition setitem :: "addr \<Rightarrow> string \<Rightarrow> json \<Rightarrow> unit prog" where
  "setitem a k v = (\<lambda>h. (Inr (), h(a := dict_setitem (h a) k v), []))"

subsection \<open>\<open>json.dumps(obj, indent=4)\<close>\<close>

text \<open>
  The text \<open>json.dumps\<close> produces with its defaults (\<open>ensure_ascii=True\<close>, item
  separator \<open>,\<close> and key separator \<open>: \<close> once an indent is given), on the values of
  type \<open>json\<close>, as the library's encoder builds it.
\<close>

definition digit_char :: "nat \<Rightarrow> char" where
  "digit_char n = char_of (48 + n)"

fun nat_repr :: "nat \<Rightarrow> string" where
  "nat_repr n = (if n < 10 then [digit_char n] else nat_repr (n div 10) @ [digit_char (n mod 10)])"

declare nat_repr.simps [simp del]

definition int_repr :: "int \<Rightarrow> string" where
  "int_repr i = (if i < 0 then CHR ''-'' # nat_repr (nat (- i)) else nat_repr (nat i))"

definition hex_char :: "nat \<Rightarrow> char" where
  "hex_char n = (if n < 10 then char_of (48 + n) else char_of (87 + n))"

text \<open>
  One character of a string: the short escapes, the printable ASCII characters as they
  are, and \<open>\u00xx\<close> (lower-case digits) for every other one.
\<close>

definition escape_char :: "char \<Rightarrow> string" where
  "escape_char c =
     (if c = backslash then [backslash, backslash]
      else if c = dquote then [backslash, dquote]
      else if c = CHR 0x08 then [backslash, CHR ''b'']
      else if c = CHR 0x0C then [backslash, CHR ''f'']
      else if c = CHR 0x0A then [backslash, CHR ''n'']
      else if c = CHR 0x0D then [backslash, CHR ''r'']
      else if c = CHR 0x09 then [backslash, CHR ''t'']
      else if (32::nat) \<le> of_char c \<and> of_char c \<le> (126::nat) then [c]
      else [backslash, CHR ''u'', CHR ''0'', CHR ''0'',
            hex_char (of_char c div 16), hex_char (of_char c mod 16)])"

definition encode_basestring_ascii :: "string \<Rightarrow> string" where
  "encode_basestring_ascii s = dquote # concat (map escape_char s) @ [dquote]"

definition newline_indent :: "nat \<Rightarrow> nat \<Rightarrow> string" where
  "newline_indent indent level = newline # replicate (indent * level) CHR '' ''"

fun iterencode :: "nat \<Rightarrow> nat \<Rightarrow> json \<Rightarrow> string" where
  "iterencode indent level JNull = ''null''"
| "iterencode indent level (JBool b) = (if b then ''true'' else ''false'')"
| "iterencode indent level (JInt i) = int_repr i"
| "iterencode indent level (JStr s) = encode_basestring_ascii s"
| "iterencode indent level (JList lst) =
     (if lst = [] then ''[]''
      else ''['' @ newline_indent indent (level + 1)
           @ str_join ('','' @ newline_indent indent (level + 1))
               (map (iterencode indent (level + 1)) lst)
           @ newline_indent indent level @ '']'')"
| "iterencode indent level (JDict dct) =
     (if dct = [] then ''{}''
      else ''{'' @ newline_indent indent (level + 1)
           @ str_join ('','' @ newline_indent indent (level + 1))
               (map (\<lambda>(key, v). encode_basestring_ascii key @ '': ''
                                 @ iterencode indent (level + 1) v) dct)
           @ newline_indent indent level @ ''}'')"

definition json_dumps :: "json \<Rightarrow> nat \<Rightarrow> string" where
  "json_dumps obj indent = iterencode indent 0 obj"

subsection \<open>The script's functions\<close>

definition execute_process :: "world \<Rightarrow> string \<Rightarrow> bool \<Rightarrow> unit prog" where
  "execute_process w command to_null =
     (let stdout = (if to_null then DEVNULL else Inherited) in
      and_then (ask (subprocess_run w [command])
                    (SubprocessRun [command] True True stdout STDOUT))
        (\<lambda>returncode.
           if returncode \<noteq> 0 then
             (let err = CalledProcessError [command] returncode
              in raise (RuntimeError (''Error executing process. '' @ str_exc w err) (Some err)))
           else succeed ()))"

definition write_file :: "world \<Rightarrow> string \<Rightarrow> string \<Rightarrow> string \<Rightarrow> unit prog" where
  "write_file w filepath text mode =
     and_then (ask (file_write w filepath text mode)
                 (FileWrite filepath text mode))
       (\<lambda>r. case r of
               None \<Rightarrow> succeed ()
             | Some err \<Rightarrow>
                 raise (OSError (''Error writing to file. '' @ err) (Some (OSError err None))))"

definition parameters_file :: string where
  "parameters_file = ''model_monitoring/automatic_retraining_parameters.json''"

definition upload_automatic_retraining_parameters ::
  "world \<Rightarrow> addr \<Rightarrow> string \<Rightarrow> string \<Rightarrow> string \<Rightarrow> unit prog" where
  "upload_automatic_retraining_parameters w auto_retraining_params
       gs_auto_retraining_params_path gs_pipeline_job_spec_path storage_bucket_name =
     and_then (setitem auto_retraining_params ''gs_pipeline_spec_path''
                 (JStr gs_pipeline_job_spec_path)) (\<lambda>_.
     and_then (getobj auto_retraining_params) (\<lambda>params.
     let serialized_params = json_dumps (JDict params) 4 in
     and_then (write_file w parameters_file serialized_params ''w'') (\<lambda>_.
     and_then (call (get_bucket w storage_bucket_name)
                 (GetBucket storage_bucket_name)) (\<lambda>_.
     let filename = str_join ''/'' (drop 3 (str_split CHR ''/'' gs_auto_retraining_params_path)) in
     call (upload_from_filename w storage_bucket_name filename parameters_file)
          (UploadFromFilename storage_bucket_name filename parameters_file)))))"

definition updated_sink_message :: "string \<Rightarrow> string" where
  "updated_sink_message sink_name = ''Updated Anomaly Log Sink '' @ sink_name @ ''.'' @ [newline]"

definition created_sink_message :: "string \<Rightarrow> string" where
  "created_sink_message sink_name = ''Created Anomaly Log Sink '' @ sink_name @ ''.'' @ [newline]"

definition create_or_update_sink :: "world \<Rightarrow> string \<Rightarrow> string \<Rightarrow> string \<Rightarrow> unit prog" where
  "create_or_update_sink w sink_name destination' filter' =
     and_then (call (sink_exists w sink_name) (SinkExists sink_name)) (\<lambda>exists.
     if exists then
       (let sink = \<lparr>name = sink_name, filter_ = filter', destination = destination'\<rparr> in
        and_then (call (sink_update w sink) (SinkUpdate sink)) (\<lambda>_.
        emit (Print (updated_sink_message (name sink)))))
     else
       (let sink = \<lparr>name = sink_name, filter_ = filter', destination = destination'\<rparr> in
        and_then (call (sink_create w sink) (SinkCreate sink)) (\<lambda>_.
        emit (Print (created_sink_message (name sink))))))"

text \<open>The strings the job manager builds for the log sink and the IAM grant.\<close>

definition monitoring_anomaly_log_filter :: "string \<Rightarrow> string \<Rightarrow> string \<Rightarrow> string" where
  "monitoring_anomaly_log_filter monitoring_location job_id project_id =
     ''resource.type='' @ [dquote]
       @ ''aiplatform.googleapis.com/ModelDeploymentMonitoringJob'' @ [dquote, newline]
     @ ''resource.labels.location='' @ [dquote] @ monitoring_location @ [dquote, newline]
     @ ''resource.labels.model_deployment_monitoring_job='' @ [dquote] @ job_id
       @ [dquote, newline]
     @ ''logName='' @ [dquote] @ ''projects/'' @ project_id
       @ ''/logs/aiplatform.googleapis.com%2Fmodel_monitoring_anomaly'' @ [dquote, newline]
     @ ''severity>=WARNING'' @ [newline]"

definition anomaly_log_destination :: "string \<Rightarrow> string \<Rightarrow> string" where
  "anomaly_log_destination project_id pubsub_topic_name =
     ''pubsub.googleapis.com/projects/'' @ project_id @ ''/topics/'' @ pubsub_topic_name"

definition cloud_logs_sa :: string where
  "cloud_logs_sa = ''cloud-logs@system.gserviceaccount.com''"

definition update_iam :: "string \<Rightarrow> string" where
  "update_iam project_id =
     ''gcloud projects add-iam-policy-binding '' @ project_id @ '' '' @ [backslash, newline]
     @ ''--member='' @ [dquote] @ ''serviceAccount:'' @ cloud_logs_sa @ [dquote]
       @ '' '' @ [backslash, newline]
     @ ''--role='' @ [dquote] @ ''roles/pubsub.publisher'' @ [dquote]"

text \<open>The other strings and configuration objects the job manager builds.\<close>

definition endpoint_filter :: "string \<Rightarrow> string" where
  "endpoint_filter model_endpoint =
     ''endpoint='' @ [dquote] @ last (str_split CHR ''/'' model_endpoint) @ [dquote]"

definition endpoint_not_found :: "string \<Rightarrow> string \<Rightarrow> string" where
  "endpoint_not_found model_endpoint monitoring_location =
     ''Model endpoint '' @ model_endpoint @ '' not found in '' @ monitoring_location"

definition job_filter :: "string \<Rightarrow> string" where
  "job_filter job_display_name = ''display_name='' @ [dquote] @ job_display_name @ [dquote]"

definition skew_config ::
  "(string \<times> real) list option \<Rightarrow> string \<Rightarrow> string \<Rightarrow> skew_detection_config option" where
  "skew_config skew_thresholds training_dataset target_field =
     (case skew_thresholds of
        None \<Rightarrow> None
      | Some thresholds \<Rightarrow>
          if thresholds = [] then None
          else Some (SkewDetectionConfig training_dataset thresholds target_field))"

definition drift_config :: "(string \<times> real) list option \<Rightarrow> drift_detection_config option" where
  "drift_config drift_thresholds =
     (case drift_thresholds of
        None \<Rightarrow> None
      | Some thresholds \<Rightarrow>
          if thresholds = [] then None else Some (DriftDetectionConfig thresholds))"

definition alerting_config :: "string list option \<Rightarrow> email_alert_config" where
  "alerting_config alert_emails =
     EmailAlertConfig (case alert_emails of None \<Rightarrow> [] | Some emails \<Rightarrow> emails) True"

definition updated_job_message :: "string \<Rightarrow> string" where
  "updated_job_message old_job_id =
     ''Updated monitoring job '' @ old_job_id @ '' with new arguments.''"

definition routed_message :: "string \<Rightarrow> string" where
  "routed_message pubsub_topic_name =
     ''All anomaly logs for this model monitoring job are being routed to pub/sub topic ''
     @ pubsub_topic_name @ '' for automatic retraining.''"

definition retraining_message :: "string \<Rightarrow> string" where
  "retraining_message gs_auto_retraining_params_path =
     ''Retraining will use the following parameters located at ''
     @ gs_auto_retraining_params_path @ '': '' @ [newline]"

definition updating_message :: string where
  "updating_message = [newline] @ ''Updating '' @ cloud_logs_sa @ '' with roles/pubsub.publisher''"

definition create_or_update_monitoring_job ::
  "world \<Rightarrow> string list option \<Rightarrow> addr option \<Rightarrow> (string \<times> real) list option \<Rightarrow> string
     \<Rightarrow> string \<Rightarrow> string \<Rightarrow> string \<Rightarrow> int \<Rightarrow> string \<Rightarrow> string \<Rightarrow> string \<Rightarrow> real
     \<Rightarrow> (string \<times> real) list option \<Rightarrow> string \<Rightarrow> string \<Rightarrow> unit prog" where
  "create_or_update_monitoring_job w alert_emails auto_retraining_params drift_thresholds
       gs_auto_retraining_params_path job_display_name log_sink_name model_endpoint
       monitoring_interval monitoring_location project_id pubsub_topic_name sample_rate
       skew_thresholds target_field training_dataset =
     and_then (emit (AiplatformInit project_id monitoring_location)) (\<lambda>_.
     and_then (call (Endpoint_list w (endpoint_filter model_endpoint))
                 (EndpointList (endpoint_filter model_endpoint))) (\<lambda>endpoint_list.
     if endpoint_list = [] then
       raise (ValueError (endpoint_not_found model_endpoint monitoring_location))
     else
     and_then (call (Endpoint_init w model_endpoint)
                 (EndpointInit model_endpoint)) (\<lambda>_.
     let endpoint = model_endpoint;
         objective_config =
           ObjectiveConfig (skew_config skew_thresholds training_dataset target_field)
             (drift_config drift_thresholds) None;
         random_sampling = RandomSampleConfig sample_rate;
         schedule = ScheduleConfig monitoring_interval;
         args = \<lparr>display_name = job_display_name,
                 logging_sampling_strategy = random_sampling,
                 schedule_config = schedule,
                 alert_config = alerting_config alert_emails,
                 objective_configs = objective_config,
                 enable_monitoring_pipeline_logs = True\<rparr> in
     and_then (call (Job_list w (job_filter job_display_name))
                 (JobList (job_filter job_display_name))) (\<lambda>job_list.
     and_then
       (case job_list of
          [] \<Rightarrow>
            call (Job_create w args project_id monitoring_location endpoint)
              (JobCreate args project_id monitoring_location endpoint)
        | first_job # _ \<Rightarrow>
            (let old_job_id = last (str_split CHR ''/'' first_job) in
             and_then (call (Job_update w old_job_id args)
                         (JobUpdate old_job_id args)) (\<lambda>job.
             and_then (emit (Print (updated_job_message old_job_id))) (\<lambda>_.
             succeed job)))) (\<lambda>job.
     case auto_retraining_params of
       None \<Rightarrow> succeed ()
     | Some params_ref \<Rightarrow>
         and_then (getobj params_ref) (\<lambda>params.
         if params = [] then succeed ()
         else
         (let job_id = last (str_split CHR ''/'' job) in
          and_then (create_or_update_sink w log_sink_name
                      (anomaly_log_destination project_id pubsub_topic_name)
                      (monitoring_anomaly_log_filter monitoring_location job_id project_id))
            (\<lambda>_.
          and_then (emit (Print (routed_message pubsub_topic_name))) (\<lambda>_.
          and_then (emit (Print (retraining_message gs_auto_retraining_params_path))) (\<lambda>_.
          and_then (getobj params_ref) (\<lambda>printed.
          and_then (emit (PPrint printed)) (\<lambda>_.
          and_then (emit (Print updating_message)) (\<lambda>_.
          execute_process w (update_iam project_id) True)))))))))))))"

text \<open>
  The configuration mapping after \<open>yaml.load\<close>, with every key the script reads.
  \<open>auto_retraining_params\<close> is \<open>None\<close> or a reference to a dictionary.
\<close>

record config =
  gcp_project_id :: string
  gcp_pubsub_topic_name :: string
  gcp_storage_bucket_name :: string
  monitoring_alert_emails :: "string list option"
  monitoring_auto_retraining_params :: "addr option"
  monitoring_drift_thresholds :: "(string \<times> real) list option"
  monitoring_gs_auto_retraining_params_path :: string
  monitoring_job_display_name :: string
  monitoring_log_sink_name :: string
  monitoring_model_endpoint :: string
  monitoring_monitoring_interval :: int
  monitoring_monitoring_location :: string
  monitoring_sample_rate :: real
  monitoring_skew_thresholds :: "(string \<times> real) list option"
  monitoring_target_field :: string
  monitoring_training_dataset :: string
  pipelines_gs_pipeline_job_spec_path :: string

text \<open>The body of the script once the configuration file is parsed.\<close>

definition main :: "world \<Rightarrow> config \<Rightarrow> unit prog" where
  "main w config =
     and_then
       (case monitoring_auto_retraining_params config of
          None \<Rightarrow> succeed ()
        | Some params_ref \<Rightarrow>
            and_then (getobj params_ref) (\<lambda>params.
            if params = [] then succeed ()
            else upload_automatic_retraining_parameters w params_ref
                   (monitoring_gs_auto_retraining_params_path config)
                   (pipelines_gs_pipeline_job_spec_path config)
                   (gcp_storage_bucket_name config))) (\<lambda>_.
     create_or_update_monitoring_job w
       (monitoring_alert_emails config)
       (monitoring_auto_retraining_params config)
       (monitoring_drift_thresholds config)
       (monitoring_gs_auto_retraining_params_path config)
       (monitoring_job_display_name config)
       (monitoring_log_sink_name config)
       (monitoring_model_endpoint config)
       (monitoring_monitoring_interval config)
       (monitoring_monitoring_location config)
       (gcp_project_id config)
       (gcp_pubsub_topic_name config)
       (monitoring_sample_rate config)
       (monitoring_skew_thresholds config)
       (monitoring_target_field config)
       (monitoring_training_dataset config))"

subsection \<open>Reading a trace\<close>

fun is_job_create :: "event \<Rightarrow> bool" where
  "is_job_create (JobCreate _ _ _ _ _) = True"
| "is_job_create _ = False"

fun is_job_update :: "event \<Rightarrow> bool" where
  "is_job_update (JobUpdate _ _ _) = True"
| "is_job_update _ = False"

definition is_job_upsert :: "event \<Rightarrow> bool" where
  "is_job_upsert e \<longleftrightarrow> is_job_create e \<or> is_job_update e"

fun is_job_event :: "event \<Rightarrow> bool" where
  "is_job_event (JobList _ _) = True"
| "is_job_event (JobCreate _ _ _ _ _) = True"
| "is_job_event (JobUpdate _ _ _) = True"
| "is_job_event _ = False"

text \<open>The settings a job create or update call carries.\<close>

fun job_args_of :: "event \<Rightarrow> monitoring_job_args option" where
  "job_args_of (JobCreate args _ _ _ _) = Some args"
| "job_args_of (JobUpdate _ args _) = Some args"
| "job_args_of _ = None"

text \<open>The calls of the uploader, of the log-sink manager and of the process executor.\<close>

fun is_upload_step :: "event \<Rightarrow> bool" where
  "is_upload_step (FileWrite _ _ _ _) = True"
| "is_upload_step (GetBucket _ _) = True"
| "is_upload_step (UploadFromFilename _ _ _ _) = True"
| "is_upload_step _ = False"

fun is_sink_step :: "event \<Rightarrow> bool" where
  "is_sink_step (SinkExists _ _) = True"
| "is_sink_step (SinkUpdate _ _) = True"
| "is_sink_step (SinkCreate _ _) = True"
| "is_sink_step _ = False"

fun is_sink_write :: "event \<Rightarrow> bool" where
  "is_sink_write (SinkUpdate _ _) = True"
| "is_sink_write (SinkCreate _ _) = True"
| "is_sink_write _ = False"

fun is_iam_grant :: "event \<Rightarrow> bool" where
  "is_iam_grant (SubprocessRun _ _ _ _ _ _) = True"
| "is_iam_grant _ = False"

text \<open>Every \<open>P\<close> event of a trace comes strictly before every \<open>Q\<close> event.\<close>

definition all_before :: "(event \<Rightarrow> bool) \<Rightarrow> (event \<Rightarrow> bool) \<Rightarrow> event list \<Rightarrow> bool" where
  "all_before P Q evs \<longleftrightarrow>
     (\<forall>i<length evs. \<forall>j<length evs. P (evs ! i) \<and> Q (evs ! j) \<longrightarrow> i < j)"

text \<open>
  The place of a call in the script: uploader, lookups, job upsert, log sink, IAM
  grant. Console output has none.
\<close>

fun rank :: "event \<Rightarrow> nat option" where
  "rank (FileWrite _ _ _ _) = Some 0"
| "rank (GetBucket _ _) = Some 0"
| "rank (UploadFromFilename _ _ _ _) = Some 0"
| "rank (AiplatformInit _ _) = Some 1"
| "rank (EndpointList _ _) = Some 1"
| "rank (EndpointInit _ _) = Some 1"
| "rank (JobList _ _) = Some 1"
| "rank (JobCreate _ _ _ _ _) = Some 2"
| "rank (JobUpdate _ _ _) = Some 2"
| "rank (SinkExists _ _) = Some 3"
| "rank (SinkUpdate _ _) = Some 3"
| "rank (SinkCreate _ _) = Some 3"
| "rank (SubprocessRun _ _ _ _ _ _) = Some 4"
| "rank (Print _) = None"
| "rank (PPrint _) = None"

subsection \<open>The stages of the job manager\<close>

text \<open>
  The settings passed to the create and the update call, the create-or-update branch
  and the block guarded by \<open>if auto_retraining_params\<close>, each on its own; lemma
  \<open>create_or_update_monitoring_job_stages\<close> shows that the function is their sequence.
\<close>

definition job_args :: "string list option \<Rightarrow> (string \<times> real) list option \<Rightarrow> string \<Rightarrow> int \<Rightarrow> real
     \<Rightarrow> (string \<times> real) list option \<Rightarrow> string \<Rightarrow> string \<Rightarrow> monitoring_job_args" where
  "job_args alert_emails drift_thresholds job_display_name monitoring_interval sample_rate
       skew_thresholds target_field training_dataset =
     \<lparr>display_name = job_display_name,
      logging_sampling_strategy = RandomSampleConfig sample_rate,
      schedule_config = ScheduleConfig monitoring_interval,
      alert_config = alerting_config alert_emails,
      objective_configs =
        ObjectiveConfig (skew_config skew_thresholds training_dataset target_field)
          (drift_config drift_thresholds) None,
      enable_monitoring_pipeline_logs = True\<rparr>"

definition upsert_job ::
  "world \<Rightarrow> monitoring_job_args \<Rightarrow> string \<Rightarrow> string \<Rightarrow> string \<Rightarrow> string list \<Rightarrow> string prog" where
  "upsert_job w args project_id monitoring_location endpoint job_list =
     (case job_list of
        [] \<Rightarrow>
          call (Job_create w args project_id monitoring_location endpoint)
            (JobCreate args project_id monitoring_location endpoint)
      | first_job # _ \<Rightarrow>
          (let old_job_id = last (str_split CHR ''/'' first_job) in
           and_then (call (Job_update w old_job_id args)
                       (JobUpdate old_job_id args)) (\<lambda>job.
           and_then (emit (Print (updated_job_message old_job_id))) (\<lambda>_.
           succeed job))))"

definition retraining_wiring ::
  "world \<Rightarrow> addr option \<Rightarrow> string \<Rightarrow> string \<Rightarrow> string \<Rightarrow> string \<Rightarrow> string \<Rightarrow> string \<Rightarrow> unit prog" where
  "retraining_wiring w auto_retraining_params gs_auto_retraining_params_path log_sink_name
       monitoring_location project_id pubsub_topic_name job =
     (case auto_retraining_params of
       None \<Rightarrow> succeed ()
     | Some params_ref \<Rightarrow>
         and_then (getobj params_ref) (\<lambda>params.
         if params = [] then succeed ()
         else
         (let job_id = last (str_split CHR ''/'' job) in
          and_then (create_or_update_sink w log_sink_name
                      (anomaly_log_destination project_id pubsub_topic_name)
                      (monitoring_anomaly_log_filter monitoring_location job_id project_id))
            (\<lambda>_.
          and_then (emit (Print (routed_message pubsub_topic_name))) (\<lambda>_.
          and_then (emit (Print (retraining_message gs_auto_retraining_params_path))) (\<lambda>_.
          and_then (getobj params_ref) (\<lambda>printed.
          and_then (emit (PPrint printed)) (\<lambda>_.
          and_then (emit (Print updating_message)) (\<lambda>_.
          execute_process w (update_iam project_id) True)))))))))"

subsection \<open>Example runs\<close>

text \<open>
  A world where the endpoint exists, no job has the display name, no sink has the sink
  name and every call succeeds; and variations of it.
\<close>

definition example_world :: world where
  "example_world =
     \<lparr>Endpoint_list = (\<lambda>_. Inr [''projects/p/locations/us-central1/endpoints/123'']),
      Endpoint_init = (\<lambda>_. Inr ()),
      Job_list = (\<lambda>_. Inr []),
      Job_create =
        (\<lambda>_ _ _ _. Inr ''projects/p/locations/us-central1/modelDeploymentMonitoringJobs/456''),
      Job_update =
        (\<lambda>_ _. Inr ''projects/p/locations/us-central1/modelDeploymentMonitoringJobs/789''),
      sink_exists = (\<lambda>_. Inr False),
      sink_update = (\<lambda>_. Inr ()),
      sink_create = (\<lambda>_. Inr ()),
      file_write = (\<lambda>_ _ _. None),
      get_bucket = (\<lambda>_. Inr ()),
      upload_from_filename = (\<lambda>_ _ _. Inr ()),
      subprocess_run = (\<lambda>_. 0),
      str_exc = (\<lambda>_. ''Command returned non-zero exit status 1.'')\<rparr>"

definition existing_world :: world where
  "existing_world =
     example_world
       \<lparr>Job_list :=
          (\<lambda>_. Inr [''projects/p/locations/us-central1/modelDeploymentMonitoringJobs/789'',
                     ''projects/p/locations/us-central1/modelDeploymentMonitoringJobs/790'']),
        sink_exists := (\<lambda>_. Inr True)\<rparr>"

definition no_endpoint_world :: world where
  "no_endpoint_world = example_world\<lparr>Endpoint_list := (\<lambda>_. Inr [])\<rparr>"

definition failing_world :: world where
  "failing_world = example_world\<lparr>subprocess_run := (\<lambda>_. 1)\<rparr>"

definition example_config :: config where
  "example_config =
     \<lparr>gcp_project_id = ''p'',
      gcp_pubsub_topic_name = ''topic1'',
      gcp_storage_bucket_name = ''b'',
      monitoring_alert_emails = None,
      monitoring_auto_retraining_params = Some 0,
      monitoring_drift_thresholds = Some [(''f1'', 1 / 10)],
      monitoring_gs_auto_retraining_params_path = ''gs://b/params/retrain.json'',
      monitoring_job_display_name = ''job1'',
      monitoring_log_sink_name = ''sink1'',
      monitoring_model_endpoint = ''projects/p/locations/us-central1/endpoints/123'',
      monitoring_monitoring_interval = 1,
      monitoring_monitoring_location = ''us-central1'',
      monitoring_sample_rate = 4 / 5,
      monitoring_skew_thresholds = Some [],
      monitoring_target_field = ''label'',
      monitoring_training_dataset = ''bq://p.d.t'',
      pipelines_gs_pipeline_job_spec_path = ''gs://b/spec.json''\<rparr>"

definition example_store :: store where
  "example_store = (\<lambda>_. [(''a'', JInt 1)])"

definition empty_store :: store where
  "empty_store = (\<lambda>_. [])"

text \<open>The job manager as the script calls it for the example configuration.\<close>

definition example_job :: "world \<Rightarrow> unit prog" where
  "example_job w =
     create_or_update_monitoring_job w
       (monitoring_alert_emails example_config)
       (monitoring_auto_retraining_params example_config)
       (monitoring_drift_thresholds example_config)
       (monitoring_gs_auto_retraining_params_path example_config)
       (monitoring_job_display_name example_config)
       (monitoring_log_sink_name example_config)
       (monitoring_model_endpoint example_config)
       (monitoring_monitoring_interval example_config)
       (monitoring_monitoring_location example_config)
       (gcp_project_id example_config)
       (gcp_pubsub_topic_name example_config)
       (monitoring_sample_rate example_config)
       (monitoring_skew_thresholds example_config)
       (monitoring_target_field example_config)
       (monitoring_training_dataset example_config)"

subsection \<open>\<open>json.loads\<close>\<close>

text \<open>
  The library's decoder on the same values: white space is skipped where the decoder
  skips it, a string is scanned with its escapes, a number is the integer the number
  pattern matches, an object's pairs become a dictionary in which a repeated key keeps
  its first place and its last value. The answer is \<open>None\<close> where the decoder raises,
  and also where the text holds what the type \<open>json\<close> has no value for (a float, a
  character beyond code 255). The loops of the array and object decoders are recursive
  functions with fuel; \<open>json_loads\<close> starts them with the length of the text, which
  lemma \<open>fuel_le_length\<close> shows to be enough for every text the encoder writes.
\<close>

definition is_ws :: "char \<Rightarrow> bool" where
  "is_ws c \<longleftrightarrow> c = CHR '' '' \<or> c = CHR 0x09 \<or> c = CHR 0x0A \<or> c = CHR 0x0D"

fun skip_ws :: "string \<Rightarrow> string" where
  "skip_ws [] = []"
| "skip_ws (c # cs) = (if is_ws c then skip_ws cs else c # cs)"

definition is_digit :: "char \<Rightarrow> bool" where
  "is_digit c \<longleftrightarrow> (48::nat) \<le> of_char c \<and> of_char c \<le> (57::nat)"















text \<open>The characters a value's text can start with.\<close>

definition value_start :: "char \<Rightarrow> bool" where
  "value_start c \<longleftrightarrow>
     c = dquote \<or> c = CHR ''{'' \<or> c = CHR ''['' \<or> c = CHR ''n'' \<or> c = CHR ''t''
     \<or> c = CHR ''f'' \<or> c = CHR ''-'' \<or> is_digit c"


section \<open>Properties\<close>

subsection \<open>Running a sequence\<close>

lemma events_and_then:
  "events (and_then m f) h =
     events m h @ (case outcome m h of Inl e \<Rightarrow> []
        | Inr x \<Rightarrow> events (f x) (store_after m h))"
  by (simp add: events_def outcome_def store_after_def and_then_def split: prod.splits sum.splits)

lemma outcome_and_then:
  "outcome (and_then m f) h =
     (case outcome m h of Inl e \<Rightarrow> Inl e
        | Inr x \<Rightarrow> outcome (f x) (store_after m h))"
  by (simp add: events_def outcome_def store_after_def and_then_def split: prod.splits sum.splits)

lemma store_after_and_then:
  "store_after (and_then m f) h =
     (case outcome m h of Inl e \<Rightarrow> store_after m h
        | Inr x \<Rightarrow> store_after (f x) (store_after m h))"
  by (simp add: events_def outcome_def store_after_def and_then_def split: prod.splits sum.splits)

lemma primitive_run:
  "events (succeed x) h = []" "outcome (succeed x) h = Inr x" "store_after (succeed x) h = h"
  "events (raise e) h = []" "outcome (raise e) h = Inl e" "store_after (raise e) h = h"
  "events (emit ev) h = [ev]" "outcome (emit ev) h = Inr ()" "store_after (emit ev) h = h"
  "events (call a c) h = [c a]" "outcome (call a c) h = a" "store_after (call a c) h = h"
  "events (ask b d) h = [d b]" "outcome (ask b d) h = Inr b" "store_after (ask b d) h = h"
  "events (getobj ad) h = []" "outcome (getobj ad) h = Inr (h ad)" "store_after (getobj ad) h = h"
  "events (setitem ad k v) h = []" "outcome (setitem ad k v) h = Inr ()" "store_after (setitem ad k v) h = h(ad := dict_setitem (h ad) k v)"
  by (simp_all add: events_def outcome_def store_after_def succeed_def raise_def emit_def call_def ask_def getobj_def setitem_def Let_def)

lemmas run_simps = events_and_then outcome_and_then store_after_and_then primitive_run

lemma create_or_update_monitoring_job_stages:
  "create_or_update_monitoring_job w alert_emails auto_retraining_params drift_thresholds
       gs_auto_retraining_params_path job_display_name log_sink_name model_endpoint
       monitoring_interval monitoring_location project_id pubsub_topic_name sample_rate
       skew_thresholds target_field training_dataset =
     and_then (emit (AiplatformInit project_id monitoring_location)) (\<lambda>_.
     and_then (call (Endpoint_list w (endpoint_filter model_endpoint))
                 (EndpointList (endpoint_filter model_endpoint))) (\<lambda>endpoint_list.
     if endpoint_list = [] then
       raise (ValueError (endpoint_not_found model_endpoint monitoring_location))
     else
     and_then (call (Endpoint_init w model_endpoint) (EndpointInit model_endpoint)) (\<lambda>_.
     and_then (call (Job_list w (job_filter job_display_name))
                 (JobList (job_filter job_display_name))) (\<lambda>job_list.
     and_then (upsert_job w
                 (job_args alert_emails drift_thresholds job_display_name monitoring_interval
                    sample_rate skew_thresholds target_field training_dataset)
                 project_id monitoring_location model_endpoint job_list)
       (retraining_wiring w auto_retraining_params gs_auto_retraining_params_path
          log_sink_name monitoring_location project_id pubsub_topic_name)))))"
  unfolding create_or_update_monitoring_job_def upsert_job_def retraining_wiring_def job_args_def Let_def
  by (rule refl)

lemma execute_process_run:
  "events (execute_process w command to_null) h =
     [SubprocessRun [command] True True (if to_null then DEVNULL else Inherited) STDOUT
        (subprocess_run w [command])]"
  "outcome (execute_process w command to_null) h =
     (if subprocess_run w [command] \<noteq> 0
      then Inl (RuntimeError (''Error executing process. ''
                   @ str_exc w (CalledProcessError [command] (subprocess_run w [command])))
                 (Some (CalledProcessError [command] (subprocess_run w [command]))))
      else Inr ())"
  "store_after (execute_process w command to_null) h = h"
  by (simp_all add: execute_process_def run_simps Let_def)

lemma create_or_update_sink_events:
  "events (create_or_update_sink w n d f) h =
     SinkExists n (sink_exists w n) #
     (case sink_exists w n of
        Inl e \<Rightarrow> []
      | Inr True \<Rightarrow>
          SinkUpdate \<lparr>name = n, filter_ = f, destination = d\<rparr>
            (sink_update w \<lparr>name = n, filter_ = f, destination = d\<rparr>) #
          (case sink_update w \<lparr>name = n, filter_ = f, destination = d\<rparr> of
             Inl e \<Rightarrow> []
           | Inr _ \<Rightarrow> [Print (updated_sink_message n)])
      | Inr False \<Rightarrow>
          SinkCreate \<lparr>name = n, filter_ = f, destination = d\<rparr>
            (sink_create w \<lparr>name = n, filter_ = f, destination = d\<rparr>) #
          (case sink_create w \<lparr>name = n, filter_ = f, destination = d\<rparr> of
             Inl e \<Rightarrow> []
           | Inr _ \<Rightarrow> [Print (created_sink_message n)]))"
  by (simp add: create_or_update_sink_def run_simps Let_def split: sum.splits bool.splits)

lemma create_or_update_sink_store:
  "store_after (create_or_update_sink w n d f) h = h"
  by (simp add: create_or_update_sink_def run_simps Let_def split: sum.splits bool.splits)

lemma upsert_job_events:
  "events (upsert_job w args p l ep jl) h =
     (case jl of
        [] \<Rightarrow> [JobCreate args p l ep (Job_create w args p l ep)]
      | j # _ \<Rightarrow>
          JobUpdate (last (str_split CHR ''/'' j)) args
            (Job_update w (last (str_split CHR ''/'' j)) args) #
          (case Job_update w (last (str_split CHR ''/'' j)) args of
             Inl e \<Rightarrow> []
           | Inr _ \<Rightarrow> [Print (updated_job_message (last (str_split CHR ''/'' j)))]))"
  by (simp add: upsert_job_def run_simps Let_def split: sum.splits list.splits)

lemma upsert_job_store: "store_after (upsert_job w args p l ep jl) h = h"
  by (simp add: upsert_job_def run_simps Let_def split: sum.splits list.splits)

lemma retraining_wiring_events:
  "events (retraining_wiring w arp gp lsn ml pid ptn job) h =
     (case arp of
        None \<Rightarrow> []
      | Some r \<Rightarrow>
          if h r = [] then []
          else events (create_or_update_sink w lsn (anomaly_log_destination pid ptn)
                         (monitoring_anomaly_log_filter ml (last (str_split CHR ''/'' job)) pid)) h
               @ (case outcome (create_or_update_sink w lsn (anomaly_log_destination pid ptn)
                         (monitoring_anomaly_log_filter ml (last (str_split CHR ''/'' job)) pid)) h of
                    Inl e \<Rightarrow> []
                  | Inr _ \<Rightarrow>
                      [Print (routed_message ptn), Print (retraining_message gp),
                       PPrint (h r), Print updating_message,
                       SubprocessRun [update_iam pid] True True DEVNULL STDOUT
                         (subprocess_run w [update_iam pid])]))"
  by (simp add: retraining_wiring_def run_simps Let_def create_or_update_sink_store execute_process_run split: sum.splits option.splits)

lemma retraining_wiring_store: "store_after (retraining_wiring w arp gp lsn ml pid ptn job) h = h"
  by (simp add: retraining_wiring_def run_simps Let_def create_or_update_sink_store execute_process_run split: sum.splits option.splits)

lemma create_or_update_monitoring_job_events:
  "events (create_or_update_monitoring_job w ae arp dt gp jdn lsn me mi ml pid ptn sr st tf td) h =
     AiplatformInit pid ml # EndpointList (endpoint_filter me) (Endpoint_list w (endpoint_filter me)) #
     (case Endpoint_list w (endpoint_filter me) of
        Inl e \<Rightarrow> []
      | Inr el \<Rightarrow>
          if el = [] then []
          else EndpointInit me (Endpoint_init w me) #
            (case Endpoint_init w me of
               Inl e \<Rightarrow> []
             | Inr _ \<Rightarrow>
                 JobList (job_filter jdn) (Job_list w (job_filter jdn)) #
                 (case Job_list w (job_filter jdn) of
                    Inl e \<Rightarrow> []
                  | Inr jl \<Rightarrow>
                      events (upsert_job w (job_args ae dt jdn mi sr st tf td) pid ml me jl) h
                      @ (case outcome (upsert_job w (job_args ae dt jdn mi sr st tf td) pid ml me jl) h of
                           Inl e \<Rightarrow> []
                         | Inr job \<Rightarrow> events (retraining_wiring w arp gp lsn ml pid ptn job) h))))"
  by (simp add: create_or_update_monitoring_job_stages run_simps upsert_job_store split: sum.splits)

lemma create_or_update_monitoring_job_store:
  "store_after (create_or_update_monitoring_job w ae arp dt gp jdn lsn me mi ml pid ptn sr st tf td) h = h"
  by (simp add: create_or_update_monitoring_job_stages run_simps upsert_job_store retraining_wiring_store split: sum.splits)


subsection \<open>Ordering of events\<close>

lemma all_before_Nil: "all_before P Q []"
  by (simp add: all_before_def)

lemma all_before_Cons:
  "all_before P Q (e # es) \<longleftrightarrow>
     \<not> (P e \<and> Q e) \<and> (Q e \<longrightarrow> (\<forall>y\<in>set es. \<not> P y)) \<and> all_before P Q es"
proof
  assume ab: "all_before P Q (e # es)"
  have 1: "\<not> (P e \<and> Q e)"
    using ab [unfolded all_before_def, rule_format, of 0 0] by auto
  have 2: "Q e \<longrightarrow> (\<forall>y\<in>set es. \<not> P y)"
  proof (intro impI ballI notI)
    fix y assume "Q e" "y \<in> set es" "P y"
    then obtain k where "k < length es" "es ! k = y"
      by (auto simp: in_set_conv_nth)
    with \<open>Q e\<close> \<open>P y\<close> ab [unfolded all_before_def, rule_format, of "Suc k" 0]
    show False by auto
  qed
  have 3: "all_before P Q es"
    unfolding all_before_def
  proof (intro allI impI)
    fix i j assume "i < length es" "j < length es" "P (es ! i) \<and> Q (es ! j)"
    with ab [unfolded all_before_def, rule_format, of "Suc i" "Suc j"]
    show "i < j" by auto
  qed
  from 1 2 3 show "\<not> (P e \<and> Q e) \<and> (Q e \<longrightarrow> (\<forall>y\<in>set es. \<not> P y)) \<and> all_before P Q es"
    by blast
next
  assume r: "\<not> (P e \<and> Q e) \<and> (Q e \<longrightarrow> (\<forall>y\<in>set es. \<not> P y)) \<and> all_before P Q es"
  show "all_before P Q (e # es)"
    unfolding all_before_def
  proof (intro allI impI)
    fix i j
    assume i: "i < length (e # es)" and j: "j < length (e # es)"
      and pq: "P ((e # es) ! i) \<and> Q ((e # es) ! j)"
    show "i < j"
    proof (cases i)
      case 0
      with r pq show ?thesis by (cases j) auto
    next
      case (Suc i')
      show ?thesis
      proof (cases j)
        case 0
        with r pq \<open>i = Suc i'\<close> i show ?thesis using nth_mem [of i' es] by auto
      next
        case (Suc j')
        with r pq \<open>i = Suc i'\<close> i j show ?thesis
          by (auto simp: all_before_def)
      qed
    qed
  qed
qed

lemma all_before_ranks:
  assumes "sorted (List.map_filter rank evs)"
    and "\<And>e. P e \<Longrightarrow> \<exists>a. rank e = Some a \<and> a \<le> k"
    and "\<And>e. Q e \<Longrightarrow> \<exists>b. rank e = Some b \<and> k < b"
  shows "all_before P Q evs"
  using assms(1)
proof (induction evs)
  case Nil
  show ?case by (rule all_before_Nil)
next
  case (Cons e es)
  have tl: "sorted (List.map_filter rank es)"
    using Cons.prems by (cases "rank e") (simp_all add: List.map_filter_simps)
  have 1: "\<not> (P e \<and> Q e)"
    using assms(2) [of e] assms(3) [of e] by auto
  have 2: "Q e \<longrightarrow> (\<forall>y\<in>set es. \<not> P y)"
  proof (intro impI ballI notI)
    fix y assume "Q e" "y \<in> set es" "P y"
    from assms(3) [OF \<open>Q e\<close>] obtain b where b: "rank e = Some b" "k < b" by blast
    from assms(2) [OF \<open>P y\<close>] obtain a where a: "rank y = Some a" "a \<le> k" by blast
    from \<open>y \<in> set es\<close> a have "a \<in> set (List.map_filter rank es)"
      by (force simp: List.map_filter_def)
    with Cons.prems b have "b \<le> a"
      by (simp add: List.map_filter_simps)
    with a b show False by simp
  qed
  from 1 2 Cons.IH [OF tl] show ?case
    by (simp add: all_before_Cons)
qed


subsection \<open>The job manager, stage by stage\<close>

lemma wiring_job_events:
  "filter is_job_event (events (retraining_wiring w arp gp lsn ml pid ptn job) h) = []"
  by (simp add: retraining_wiring_events create_or_update_sink_events
           split: sum.split option.split bool.split)

lemma upsert_job_job_events:
  "filter is_job_event (events (upsert_job w args p l ep jl) h) =
     (case jl of
        [] \<Rightarrow> [JobCreate args p l ep (Job_create w args p l ep)]
      | j # _ \<Rightarrow> [JobUpdate (last (str_split CHR ''/'' j)) args
                     (Job_update w (last (str_split CHR ''/'' j)) args)])"
  by (simp add: upsert_job_events split: sum.split list.split)

lemma job_manager_job_events:
  "filter is_job_event
     (events (create_or_update_monitoring_job w ae arp dt gp jdn lsn me mi ml pid ptn sr st tf td) h) =
     (case Endpoint_list w (endpoint_filter me) of
        Inl e \<Rightarrow> []
      | Inr el \<Rightarrow>
          if el = [] then []
          else (case Endpoint_init w me of
                  Inl e \<Rightarrow> []
                | Inr _ \<Rightarrow>
                    JobList (job_filter jdn) (Job_list w (job_filter jdn)) #
                    (case Job_list w (job_filter jdn) of
                       Inl e \<Rightarrow> []
                     | Inr jl \<Rightarrow>
                         (case jl of
                            [] \<Rightarrow>
                              [JobCreate (job_args ae dt jdn mi sr st tf td) pid ml me
                                 (Job_create w (job_args ae dt jdn mi sr st tf td) pid ml me)]
                          | j # _ \<Rightarrow>
                              [JobUpdate (last (str_split CHR ''/'' j))
                                 (job_args ae dt jdn mi sr st tf td)
                                 (Job_update w (last (str_split CHR ''/'' j))
                                    (job_args ae dt jdn mi sr st tf td))]))))"
  by (simp add: create_or_update_monitoring_job_events upsert_job_job_events wiring_job_events
           split: sum.split list.split)

lemma job_event_filters:
  "filter is_job_create (filter is_job_event evs) = filter is_job_create evs"
  "filter is_job_update (filter is_job_event evs) = filter is_job_update evs"
  "JobList f r \<in> set (filter is_job_event evs) \<longleftrightarrow> JobList f r \<in> set evs"
  by (induction evs; simp; metis is_job_create.elims(2) is_job_update.elims(2) is_job_event.simps(1,2,3))+

lemma job_args_of_job_event:
  "job_args_of e = Some args \<Longrightarrow> is_job_event e"
  by (cases e) simp_all

lemma example_job_new:
  "filter is_job_event (events (example_job example_world) example_store) =
     [JobList (job_filter ''job1'') (Inr []),
      JobCreate (job_args None (Some [(''f1'', 1 / 10)]) ''job1'' 1 (4 / 5) (Some []) ''label''
                   ''bq://p.d.t'')
        ''p'' ''us-central1'' ''projects/p/locations/us-central1/endpoints/123''
        (Inr ''projects/p/locations/us-central1/modelDeploymentMonitoringJobs/456'')]"
  by (simp add: example_job_def example_config_def example_world_def job_manager_job_events)

lemma example_job_existing:
  "filter is_job_event (events (example_job existing_world) example_store) =
     [JobList (job_filter ''job1'')
        (Inr [''projects/p/locations/us-central1/modelDeploymentMonitoringJobs/789'',
              ''projects/p/locations/us-central1/modelDeploymentMonitoringJobs/790'']),
      JobUpdate ''789''
        (job_args None (Some [(''f1'', 1 / 10)]) ''job1'' 1 (4 / 5) (Some []) ''label''
           ''bq://p.d.t'')
        (Inr ''projects/p/locations/us-central1/modelDeploymentMonitoringJobs/789'')]"
  by (simp add: example_job_def example_config_def example_world_def existing_world_def
        job_manager_job_events)

subsection \<open>Claims about the job manager\<close>

text \<open>
  C1. Once the endpoint has been found and opened, \<open>create_or_update_monitoring_job\<close>
  asks for the job list, with the filter built from the display name, and for nothing
  else under another filter. When the platform answers the empty list, the run makes
  exactly one create call, with the settings of the job, and no update call; when it
  answers a non-empty list, the run makes exactly one update call, on the identifier
  that is the last \<open>/\<close>-segment of the first match's resource name, and no create
  call. When the listing fails, neither call is made.
\<close>

theorem job_upsert_exactly_once:
  assumes endpoint_found:
      "Endpoint_list w (''endpoint='' @ [dquote] @ last (str_split CHR ''/'' model_endpoint) @ [dquote])
         = Inr endpoints" "endpoints \<noteq> []"
    and endpoint_opened: "Endpoint_init w model_endpoint = Inr ()"
  shows
  "let evs = events (create_or_update_monitoring_job w alert_emails auto_retraining_params
                drift_thresholds gs_auto_retraining_params_path job_display_name log_sink_name
                model_endpoint monitoring_interval monitoring_location project_id
                pubsub_topic_name sample_rate skew_thresholds target_field training_dataset) h;
       listing = ''display_name='' @ [dquote] @ job_display_name @ [dquote];
       args = job_args alert_emails drift_thresholds job_display_name monitoring_interval
                sample_rate skew_thresholds target_field training_dataset
   in JobList listing (Job_list w listing) \<in> set evs
    \<and> (\<forall>f r. JobList f r \<in> set evs \<longrightarrow> f = listing \<and> r = Job_list w listing)
    \<and> (Job_list w listing = Inr [] \<longrightarrow>
          filter is_job_event evs =
            [JobList listing (Inr []),
             JobCreate args project_id monitoring_location model_endpoint
               (Job_create w args project_id monitoring_location model_endpoint)]
          \<and> filter is_job_create evs =
              [JobCreate args project_id monitoring_location model_endpoint
                 (Job_create w args project_id monitoring_location model_endpoint)]
          \<and> filter is_job_update evs = [])
    \<and> (\<forall>j js. Job_list w listing = Inr (j # js) \<longrightarrow>
          filter is_job_event evs =
            [JobList listing (Inr (j # js)),
             JobUpdate (last (str_split CHR ''/'' j)) args
               (Job_update w (last (str_split CHR ''/'' j)) args)]
          \<and> filter is_job_update evs =
              [JobUpdate (last (str_split CHR ''/'' j)) args
                 (Job_update w (last (str_split CHR ''/'' j)) args)]
          \<and> filter is_job_create evs = [])
    \<and> (\<forall>e. Job_list w listing = Inl e \<longrightarrow>
          filter is_job_create evs = [] \<and> filter is_job_update evs = [])"
proof -
  define evs where "evs = events (create_or_update_monitoring_job w alert_emails auto_retraining_params
                drift_thresholds gs_auto_retraining_params_path job_display_name log_sink_name
                model_endpoint monitoring_interval monitoring_location project_id
                pubsub_topic_name sample_rate skew_thresholds target_field training_dataset) h"
  define jevs where "jevs = filter is_job_event evs"
  define listing where "listing = ''display_name='' @ [dquote] @ job_display_name @ [dquote]"
  define args where "args = job_args alert_emails drift_thresholds job_display_name
       monitoring_interval sample_rate skew_thresholds target_field training_dataset"
  have l: "job_filter job_display_name = listing"
    by (simp add: job_filter_def listing_def)
  have shape: "jevs =
       JobList listing (Job_list w listing) #
         (case Job_list w listing of
            Inl e \<Rightarrow> []
          | Inr jl \<Rightarrow>
              (case jl of
                 [] \<Rightarrow> [JobCreate args project_id monitoring_location model_endpoint
                          (Job_create w args project_id monitoring_location model_endpoint)]
               | j # _ \<Rightarrow> [JobUpdate (last (str_split CHR ''/'' j)) args
                            (Job_update w (last (str_split CHR ''/'' j)) args)]))"
    unfolding jevs_def evs_def job_manager_job_events l args_def [symmetric]
    using assms by (simp add: endpoint_filter_def)
  have 1: "JobList listing (Job_list w listing) \<in> set jevs"
    unfolding shape by simp
  have 2: "\<forall>f r. JobList f r \<in> set jevs \<longrightarrow> f = listing \<and> r = Job_list w listing"
  proof (cases "Job_list w listing")
    case (Inl e)
    then show ?thesis unfolding shape by simp
  next
    case (Inr jl)
    then show ?thesis unfolding shape by (cases jl) simp_all
  qed
  have 3: "Job_list w listing = Inr [] \<longrightarrow>
          jevs =
            [JobList listing (Inr []),
             JobCreate args project_id monitoring_location model_endpoint
               (Job_create w args project_id monitoring_location model_endpoint)]
          \<and> filter is_job_create jevs =
              [JobCreate args project_id monitoring_location model_endpoint
                 (Job_create w args project_id monitoring_location model_endpoint)]
          \<and> filter is_job_update jevs = []"
    unfolding shape by simp
  have 4: "\<forall>j js. Job_list w listing = Inr (j # js) \<longrightarrow>
          jevs =
            [JobList listing (Inr (j # js)),
             JobUpdate (last (str_split CHR ''/'' j)) args
               (Job_update w (last (str_split CHR ''/'' j)) args)]
          \<and> filter is_job_update jevs =
              [JobUpdate (last (str_split CHR ''/'' j)) args
                 (Job_update w (last (str_split CHR ''/'' j)) args)]
          \<and> filter is_job_create jevs = []"
    unfolding shape by simp
  have 5: "\<forall>e. Job_list w listing = Inl e \<longrightarrow>
          filter is_job_create jevs = [] \<and> filter is_job_update jevs = []"
    unfolding shape by simp
  from 1 2 3 4 5 show ?thesis
    unfolding Let_def evs_def [symmetric] listing_def [symmetric] args_def [symmetric]
    unfolding jevs_def [symmetric]
    unfolding jevs_def job_event_filters
    unfolding jevs_def [symmetric]
    by blast
qed

theorem job_upsert_exactly_once_witness:
  "JobList (''display_name='' @ [dquote] @ ''job1'' @ [dquote]) (Inr [])
     \<in> set (events (example_job example_world) example_store)
   \<and> filter is_job_create (events (example_job example_world) example_store) =
       [JobCreate (job_args None (Some [(''f1'', 1 / 10)]) ''job1'' 1 (4 / 5) (Some []) ''label''
                     ''bq://p.d.t'')
          ''p'' ''us-central1'' ''projects/p/locations/us-central1/endpoints/123''
          (Inr ''projects/p/locations/us-central1/modelDeploymentMonitoringJobs/456'')]
   \<and> filter is_job_update (events (example_job example_world) example_store) = []
   \<and> JobList (''display_name='' @ [dquote] @ ''job1'' @ [dquote])
        (Inr [''projects/p/locations/us-central1/modelDeploymentMonitoringJobs/789'',
              ''projects/p/locations/us-central1/modelDeploymentMonitoringJobs/790''])
        \<in> set (events (example_job existing_world) example_store)
   \<and> filter is_job_update (events (example_job existing_world) example_store) =
       [JobUpdate ''789''
          (job_args None (Some [(''f1'', 1 / 10)]) ''job1'' 1 (4 / 5) (Some []) ''label''
             ''bq://p.d.t'')
          (Inr ''projects/p/locations/us-central1/modelDeploymentMonitoringJobs/789'')]
   \<and> filter is_job_create (events (example_job existing_world) example_store) = []"
proof -
  have found:
    "Endpoint_list example_world
       (''endpoint='' @ [dquote]
          @ last (str_split CHR ''/'' (monitoring_model_endpoint example_config)) @ [dquote])
       = Inr [''projects/p/locations/us-central1/endpoints/123'']"
    "Endpoint_list existing_world
       (''endpoint='' @ [dquote]
          @ last (str_split CHR ''/'' (monitoring_model_endpoint example_config)) @ [dquote])
       = Inr [''projects/p/locations/us-central1/endpoints/123'']"
    "[''projects/p/locations/us-central1/endpoints/123''] \<noteq> []"
    by (simp_all add: example_world_def existing_world_def)
  have opened:
    "Endpoint_init example_world (monitoring_model_endpoint example_config) = Inr ()"
    "Endpoint_init existing_world (monitoring_model_endpoint example_config) = Inr ()"
    by (simp_all add: example_world_def existing_world_def)
  have none: "Job_list example_world
                (''display_name='' @ [dquote] @ monitoring_job_display_name example_config
                   @ [dquote]) = Inr []"
    by (simp add: example_world_def)
  have two: "Job_list existing_world
                (''display_name='' @ [dquote] @ monitoring_job_display_name example_config
                   @ [dquote]) =
               Inr [''projects/p/locations/us-central1/modelDeploymentMonitoringJobs/789'',
                    ''projects/p/locations/us-central1/modelDeploymentMonitoringJobs/790'']"
    by (simp add: example_world_def existing_world_def)
  have id: "last (str_split CHR ''/''
              ''projects/p/locations/us-central1/modelDeploymentMonitoringJobs/789'') = ''789''"
    by simp
  have cfg: "monitoring_job_display_name example_config = ''job1''"
    "job_args (monitoring_alert_emails example_config)
       (monitoring_drift_thresholds example_config) (monitoring_job_display_name example_config)
       (monitoring_monitoring_interval example_config) (monitoring_sample_rate example_config)
       (monitoring_skew_thresholds example_config) (monitoring_target_field example_config)
       (monitoring_training_dataset example_config) =
     job_args None (Some [(''f1'', 1 / 10)]) ''job1'' 1 (4 / 5) (Some []) ''label'' ''bq://p.d.t''"
    "gcp_project_id example_config = ''p''"
    "monitoring_monitoring_location example_config = ''us-central1''"
    "monitoring_model_endpoint example_config = ''projects/p/locations/us-central1/endpoints/123''"
    by (simp_all add: example_config_def)
  have made: "Job_create example_world a b c d =
                Inr ''projects/p/locations/us-central1/modelDeploymentMonitoringJobs/456''"
    "Job_update existing_world i a =
                Inr ''projects/p/locations/us-central1/modelDeploymentMonitoringJobs/789''"
    for a b c d i
    by (simp_all add: example_world_def existing_world_def)
  note fresh = job_upsert_exactly_once [OF found(1) found(3) opened(1),
       of "monitoring_alert_emails example_config"
       "monitoring_auto_retraining_params example_config"
       "monitoring_drift_thresholds example_config"
       "monitoring_gs_auto_retraining_params_path example_config"
       "monitoring_job_display_name example_config"
       "monitoring_log_sink_name example_config"
       "monitoring_monitoring_interval example_config"
       "monitoring_monitoring_location example_config"
       "gcp_project_id example_config"
       "gcp_pubsub_topic_name example_config"
       "monitoring_sample_rate example_config"
       "monitoring_skew_thresholds example_config"
       "monitoring_target_field example_config"
       "monitoring_training_dataset example_config" example_store,
       folded example_job_def, unfolded Let_def none, unfolded cfg(2), unfolded cfg made]
  note known = job_upsert_exactly_once [OF found(2) found(3) opened(2),
       of "monitoring_alert_emails example_config"
       "monitoring_auto_retraining_params example_config"
       "monitoring_drift_thresholds example_config"
       "monitoring_gs_auto_retraining_params_path example_config"
       "monitoring_job_display_name example_config"
       "monitoring_log_sink_name example_config"
       "monitoring_monitoring_interval example_config"
       "monitoring_monitoring_location example_config"
       "gcp_project_id example_config"
       "gcp_pubsub_topic_name example_config"
       "monitoring_sample_rate example_config"
       "monitoring_skew_thresholds example_config"
       "monitoring_target_field example_config"
       "monitoring_training_dataset example_config" example_store,
       folded example_job_def, unfolded Let_def two, unfolded cfg(2), unfolded cfg made id]
  note a = fresh [THEN conjunct1]
  note c = fresh [THEN conjunct2, THEN conjunct2, THEN conjunct1, THEN mp, OF refl]
  note b = known [THEN conjunct1]
  note d = known [THEN conjunct2, THEN conjunct2, THEN conjunct2, THEN conjunct1,
                  THEN spec, THEN spec, THEN mp, OF refl, unfolded id]
  show ?thesis
    by (intro conjI)
       (fact a, fact c [THEN conjunct2, THEN conjunct1], fact c [THEN conjunct2, THEN conjunct2],
        fact b, fact d [THEN conjunct2, THEN conjunct1], fact d [THEN conjunct2, THEN conjunct2])
qed

lemma job_event_member:
  "e \<in> set evs \<Longrightarrow> is_job_event e \<Longrightarrow> e \<in> set (filter is_job_event evs)"
  by simp

lemma job_manager_args:
  assumes "e \<in> set (events (create_or_update_monitoring_job w ae arp dt gp jdn lsn me mi ml pid
                              ptn sr st tf td) h)"
    and "job_args_of e = Some args"
  shows "args = job_args ae dt jdn mi sr st tf td"
proof -
  from assms have "e \<in> set (filter is_job_event
      (events (create_or_update_monitoring_job w ae arp dt gp jdn lsn me mi ml pid
                              ptn sr st tf td) h))"
    by (simp add: job_args_of_job_event)
  with assms(2) show ?thesis
    unfolding job_manager_job_events
    by (auto split: sum.splits list.splits if_splits)
qed

text \<open>
  C2. Every job create or update call of \<open>create_or_update_monitoring_job\<close> carries an
  objective configuration whose skew-detection part is present exactly when
  \<open>skew_thresholds\<close> is non-empty (and then holds the training dataset, the thresholds
  and the target field), whose drift-detection part is present exactly when
  \<open>drift_thresholds\<close> is non-empty (and then holds the thresholds), and whose
  explanation part is always absent.
\<close>

theorem objective_config_parts:
  "\<forall>e \<in> set (events (create_or_update_monitoring_job w alert_emails auto_retraining_params
                drift_thresholds gs_auto_retraining_params_path job_display_name log_sink_name
                model_endpoint monitoring_interval monitoring_location project_id
                pubsub_topic_name sample_rate skew_thresholds target_field training_dataset) h).
     \<forall>args. job_args_of e = Some args \<longrightarrow>
       (skew_detection_config (objective_configs args) \<noteq> None \<longleftrightarrow> truthy skew_thresholds)
     \<and> (\<forall>thresholds. skew_thresholds = Some thresholds \<and> thresholds \<noteq> [] \<longrightarrow>
            skew_detection_config (objective_configs args) =
              Some (SkewDetectionConfig training_dataset thresholds target_field))
     \<and> (drift_detection_config (objective_configs args) \<noteq> None \<longleftrightarrow> truthy drift_thresholds)
     \<and> (\<forall>thresholds. drift_thresholds = Some thresholds \<and> thresholds \<noteq> [] \<longrightarrow>
            drift_detection_config (objective_configs args) =
              Some (DriftDetectionConfig thresholds))
     \<and> explanation_config (objective_configs args) = None"
proof (intro ballI allI impI)
  fix e args
  assume "e \<in> set (events (create_or_update_monitoring_job w alert_emails auto_retraining_params
                drift_thresholds gs_auto_retraining_params_path job_display_name log_sink_name
                model_endpoint monitoring_interval monitoring_location project_id
                pubsub_topic_name sample_rate skew_thresholds target_field training_dataset) h)"
    and "job_args_of e = Some args"
  then have args: "args = job_args alert_emails drift_thresholds job_display_name
                     monitoring_interval sample_rate skew_thresholds target_field training_dataset"
    by (rule job_manager_args)
  show "(skew_detection_config (objective_configs args) \<noteq> None \<longleftrightarrow> truthy skew_thresholds)
     \<and> (\<forall>thresholds. skew_thresholds = Some thresholds \<and> thresholds \<noteq> [] \<longrightarrow>
            skew_detection_config (objective_configs args) =
              Some (SkewDetectionConfig training_dataset thresholds target_field))
     \<and> (drift_detection_config (objective_configs args) \<noteq> None \<longleftrightarrow> truthy drift_thresholds)
     \<and> (\<forall>thresholds. drift_thresholds = Some thresholds \<and> thresholds \<noteq> [] \<longrightarrow>
            drift_detection_config (objective_configs args) =
              Some (DriftDetectionConfig thresholds))
     \<and> explanation_config (objective_configs args) = None"
    unfolding args
    by (cases skew_thresholds; cases drift_thresholds)
       (simp_all add: job_args_def skew_config_def drift_config_def)
qed


lemma skew_job_new:
  "filter is_job_event
     (events (create_or_update_monitoring_job example_world (Some [''a@b.c'']) None None
                ''gs://b/params/retrain.json'' ''job2'' ''sink1''
                ''projects/p/locations/us-central1/endpoints/123'' 2 ''us-central1'' ''p''
                ''topic1'' (1 / 2) (Some [(''f1'', 3 / 10)]) ''label'' ''bq://p.d.t'')
        empty_store) =
     [JobList (job_filter ''job2'') (Inr []),
      JobCreate (job_args (Some [''a@b.c'']) None ''job2'' 2 (1 / 2) (Some [(''f1'', 3 / 10)])
                   ''label'' ''bq://p.d.t'')
        ''p'' ''us-central1'' ''projects/p/locations/us-central1/endpoints/123''
        (Inr ''projects/p/locations/us-central1/modelDeploymentMonitoringJobs/456'')]"
  by (simp add: example_world_def job_manager_job_events)

theorem objective_config_parts_witness:
  "JobCreate (job_args None (Some [(''f1'', 1 / 10)]) ''job1'' 1 (4 / 5) (Some []) ''label''
                ''bq://p.d.t'')
     ''p'' ''us-central1'' ''projects/p/locations/us-central1/endpoints/123''
     (Inr ''projects/p/locations/us-central1/modelDeploymentMonitoringJobs/456'')
     \<in> set (events (example_job example_world) example_store)
   \<and> objective_configs
        (job_args None (Some [(''f1'', 1 / 10)]) ''job1'' 1 (4 / 5) (Some []) ''label''
           ''bq://p.d.t'')
       = ObjectiveConfig None (Some (DriftDetectionConfig [(''f1'', 1 / 10)])) None
   \<and> JobCreate (job_args (Some [''a@b.c'']) None ''job2'' 2 (1 / 2) (Some [(''f1'', 3 / 10)])
                  ''label'' ''bq://p.d.t'')
        ''p'' ''us-central1'' ''projects/p/locations/us-central1/endpoints/123''
        (Inr ''projects/p/locations/us-central1/modelDeploymentMonitoringJobs/456'')
     \<in> set (events (create_or_update_monitoring_job example_world (Some [''a@b.c'']) None None
                ''gs://b/params/retrain.json'' ''job2'' ''sink1''
                ''projects/p/locations/us-central1/endpoints/123'' 2 ''us-central1'' ''p''
                ''topic1'' (1 / 2) (Some [(''f1'', 3 / 10)]) ''label'' ''bq://p.d.t'')
                   empty_store)
   \<and> objective_configs
        (job_args (Some [''a@b.c'']) None ''job2'' 2 (1 / 2) (Some [(''f1'', 3 / 10)])
           ''label'' ''bq://p.d.t'')
       = ObjectiveConfig (Some (SkewDetectionConfig ''bq://p.d.t'' [(''f1'', 3 / 10)] ''label''))
           None None"
proof -
  let ?e1 = "JobCreate (job_args None (Some [(''f1'', 1 / 10)]) ''job1'' 1 (4 / 5) (Some [])
                ''label'' ''bq://p.d.t'')
     ''p'' ''us-central1'' ''projects/p/locations/us-central1/endpoints/123''
     (Inr ''projects/p/locations/us-central1/modelDeploymentMonitoringJobs/456'')"
  let ?e2 = "JobCreate (job_args (Some [''a@b.c'']) None ''job2'' 2 (1 / 2)
                (Some [(''f1'', 3 / 10)]) ''label'' ''bq://p.d.t'')
        ''p'' ''us-central1'' ''projects/p/locations/us-central1/endpoints/123''
        (Inr ''projects/p/locations/us-central1/modelDeploymentMonitoringJobs/456'')"
  have "?e1 \<in> set (filter is_job_event (events (example_job example_world) example_store))"
    unfolding example_job_new by simp
  then have m1: "?e1 \<in> set (events (example_job example_world) example_store)"
    by simp
  have "?e2 \<in> set (filter is_job_event
          (events (create_or_update_monitoring_job example_world (Some [''a@b.c'']) None None
                ''gs://b/params/retrain.json'' ''job2'' ''sink1''
                ''projects/p/locations/us-central1/endpoints/123'' 2 ''us-central1'' ''p''
                ''topic1'' (1 / 2) (Some [(''f1'', 3 / 10)]) ''label'' ''bq://p.d.t'')
             empty_store))"
    unfolding skew_job_new by simp
  then have m2: "?e2 \<in> set (events (create_or_update_monitoring_job example_world
                (Some [''a@b.c'']) None None
                ''gs://b/params/retrain.json'' ''job2'' ''sink1''
                ''projects/p/locations/us-central1/endpoints/123'' 2 ''us-central1'' ''p''
                ''topic1'' (1 / 2) (Some [(''f1'', 3 / 10)]) ''label'' ''bq://p.d.t'')
             empty_store)"
    by simp
  note t1 = objective_config_parts [rule_format, OF m1 [unfolded example_job_def],
              of "job_args None (Some [(''f1'', 1 / 10)]) ''job1'' 1 (4 / 5) (Some [])
                    ''label'' ''bq://p.d.t''"]
  note t2 = objective_config_parts [rule_format, OF m2,
              of "job_args (Some [''a@b.c'']) None ''job2'' 2 (1 / 2)
                (Some [(''f1'', 3 / 10)]) ''label'' ''bq://p.d.t''"]
  have o1: "objective_configs
        (job_args None (Some [(''f1'', 1 / 10)]) ''job1'' 1 (4 / 5) (Some []) ''label''
           ''bq://p.d.t'')
       = ObjectiveConfig None (Some (DriftDetectionConfig [(''f1'', 1 / 10)])) None"
    using t1 by (simp add: example_config_def objective_config.expand)
  have o2: "objective_configs
        (job_args (Some [''a@b.c'']) None ''job2'' 2 (1 / 2) (Some [(''f1'', 3 / 10)])
           ''label'' ''bq://p.d.t'')
       = ObjectiveConfig (Some (SkewDetectionConfig ''bq://p.d.t'' [(''f1'', 3 / 10)] ''label''))
           None None"
    using t2 by (simp add: objective_config.expand)
  from m1 m2 o1 o2 show ?thesis by blast
qed

text \<open>
  C3. When the endpoint lookup, filtered by the last \<open>/\<close>-segment of \<open>model_endpoint\<close>,
  answers no match, \<open>create_or_update_monitoring_job\<close> raises a \<open>ValueError\<close> whose
  message names the model endpoint and the monitoring location as they were passed, and
  the run consists of the initialisation and the lookup only: no job is listed, created
  or updated afterwards.
\<close>

theorem endpoint_not_found_is_fatal:
  assumes "Endpoint_list w (''endpoint='' @ [dquote] @ last (str_split CHR ''/'' model_endpoint)
                              @ [dquote]) = Inr []"
  shows "outcome (create_or_update_monitoring_job w alert_emails auto_retraining_params
                drift_thresholds gs_auto_retraining_params_path job_display_name log_sink_name
                model_endpoint monitoring_interval monitoring_location project_id
                pubsub_topic_name sample_rate skew_thresholds target_field training_dataset) h
           = Inl (ValueError (''Model endpoint '' @ model_endpoint @ '' not found in ''
                                @ monitoring_location))
       \<and> events (create_or_update_monitoring_job w alert_emails auto_retraining_params
                drift_thresholds gs_auto_retraining_params_path job_display_name log_sink_name
                model_endpoint monitoring_interval monitoring_location project_id
                pubsub_topic_name sample_rate skew_thresholds target_field training_dataset) h
           = [AiplatformInit project_id monitoring_location,
              EndpointList (''endpoint='' @ [dquote] @ last (str_split CHR ''/'' model_endpoint)
                              @ [dquote]) (Inr [])]"
proof -
  from assms have "Endpoint_list w (endpoint_filter model_endpoint) = Inr []"
    by (simp add: endpoint_filter_def)
  then show ?thesis
    by (simp add: create_or_update_monitoring_job_stages run_simps endpoint_filter_def
          endpoint_not_found_def)
qed

theorem endpoint_not_found_is_fatal_witness:
  "Endpoint_list no_endpoint_world
     (''endpoint='' @ [dquote]
        @ last (str_split CHR ''/'' ''projects/p/locations/us-central1/endpoints/123'')
        @ [dquote]) = Inr []
   \<and> outcome (example_job no_endpoint_world) example_store
       = Inl (ValueError (''Model endpoint projects/p/locations/us-central1/endpoints/123''
                            @ '' not found in us-central1''))
   \<and> events (example_job no_endpoint_world) example_store
       = [AiplatformInit ''p'' ''us-central1'',
          EndpointList (''endpoint='' @ [dquote] @ ''123'' @ [dquote]) (Inr [])]"
proof -
  have none: "Endpoint_list no_endpoint_world
     (''endpoint='' @ [dquote]
        @ last (str_split CHR ''/'' ''projects/p/locations/us-central1/endpoints/123'')
        @ [dquote]) = Inr []"
    by (simp add: no_endpoint_world_def example_world_def)
  from endpoint_not_found_is_fatal [OF none, of "monitoring_alert_emails example_config"
       "monitoring_auto_retraining_params example_config"
       "monitoring_drift_thresholds example_config"
       "monitoring_gs_auto_retraining_params_path example_config"
       "monitoring_job_display_name example_config"
       "monitoring_log_sink_name example_config"
       "monitoring_monitoring_interval example_config"
       "monitoring_monitoring_location example_config"
       "gcp_project_id example_config"
       "gcp_pubsub_topic_name example_config"
       "monitoring_sample_rate example_config"
       "monitoring_skew_thresholds example_config"
       "monitoring_target_field example_config"
       "monitoring_training_dataset example_config" example_store] none
  show ?thesis
    by (simp add: example_job_def example_config_def)
qed

subsection \<open>The log-sink manager\<close>

text \<open>
  C5. \<open>create_or_update_sink\<close> asks whether a sink with the name exists. If it does, the
  sink with the supplied name, filter and destination is updated and no sink is
  created; if it does not, the sink with the same three settings is created and no sink
  is updated. A successful update or creation is reported on the console.
\<close>

theorem sink_upsert:
  "(sink_exists w sink_name = Inr True \<longrightarrow>
      events (create_or_update_sink w sink_name destination' filter') h =
        [SinkExists sink_name (Inr True),
         SinkUpdate \<lparr>name = sink_name, filter_ = filter', destination = destination'\<rparr>
           (sink_update w \<lparr>name = sink_name, filter_ = filter', destination = destination'\<rparr>)]
        @ (case sink_update w \<lparr>name = sink_name, filter_ = filter', destination = destination'\<rparr> of
             Inl err \<Rightarrow> []
           | Inr _ \<Rightarrow> [Print (''Updated Anomaly Log Sink '' @ sink_name @ ''.'' @ [newline])]))
   \<and> (sink_exists w sink_name = Inr False \<longrightarrow>
      events (create_or_update_sink w sink_name destination' filter') h =
        [SinkExists sink_name (Inr False),
         SinkCreate \<lparr>name = sink_name, filter_ = filter', destination = destination'\<rparr>
           (sink_create w \<lparr>name = sink_name, filter_ = filter', destination = destination'\<rparr>)]
        @ (case sink_create w \<lparr>name = sink_name, filter_ = filter', destination = destination'\<rparr> of
             Inl err \<Rightarrow> []
           | Inr _ \<Rightarrow> [Print (''Created Anomaly Log Sink '' @ sink_name @ ''.'' @ [newline])]))"
  by (simp add: create_or_update_sink_events updated_sink_message_def created_sink_message_def
        split: sum.split)

theorem sink_upsert_witness:
  "sink_exists existing_world ''sink1'' = Inr True
   \<and> events (create_or_update_sink existing_world ''sink1'' ''pubsub.googleapis.com/t'' ''severity>=WARNING'')
        empty_store =
        [SinkExists ''sink1'' (Inr True),
         SinkUpdate \<lparr>name = ''sink1'', filter_ = ''severity>=WARNING'',
                      destination = ''pubsub.googleapis.com/t''\<rparr> (Inr ()),
         Print (''Updated Anomaly Log Sink sink1.'' @ [newline])]
   \<and> sink_exists example_world ''sink1'' = Inr False
   \<and> events (create_or_update_sink example_world ''sink1'' ''pubsub.googleapis.com/t'' ''severity>=WARNING'')
        empty_store =
        [SinkExists ''sink1'' (Inr False),
         SinkCreate \<lparr>name = ''sink1'', filter_ = ''severity>=WARNING'',
                      destination = ''pubsub.googleapis.com/t''\<rparr> (Inr ()),
         Print (''Created Anomaly Log Sink sink1.'' @ [newline])]"
proof -
  have t: "sink_exists existing_world ''sink1'' = Inr True"
    by (simp add: existing_world_def example_world_def)
  have f: "sink_exists example_world ''sink1'' = Inr False"
    by (simp add: example_world_def)
  from t f
    sink_upsert [of existing_world "''sink1''" "''pubsub.googleapis.com/t''"
                   "''severity>=WARNING''" empty_store, THEN conjunct1, rule_format, OF t]
    sink_upsert [of example_world "''sink1''" "''pubsub.googleapis.com/t''"
                   "''severity>=WARNING''" empty_store, THEN conjunct2, rule_format, OF f]
  show ?thesis
    by (simp add: existing_world_def example_world_def)
qed

subsection \<open>The command of the IAM grant\<close>

lemma sink_events_class:
  "e \<in> set (events (create_or_update_sink w n d f) h) \<Longrightarrow> is_sink_step e \<or> (\<exists>m. e = Print m)"
  by (auto simp: create_or_update_sink_events split: sum.splits bool.splits)

lemma upsert_events_class:
  "e \<in> set (events (upsert_job w args p l ep jl) h) \<Longrightarrow> is_job_upsert e \<or> (\<exists>m. e = Print m)"
  by (auto simp: upsert_job_events is_job_upsert_def split: sum.splits list.splits)

lemma wiring_events_class:
  assumes "e \<in> set (events (retraining_wiring w arp gp lsn ml pid ptn job) h)"
  shows "is_sink_step e \<or> (\<exists>m. e = Print m) \<or> (\<exists>d. e = PPrint d)
     \<or> e = SubprocessRun [update_iam pid] True True DEVNULL STDOUT
             (subprocess_run w [update_iam pid])"
proof (cases arp)
  case None
  with assms show ?thesis by (simp add: retraining_wiring_events)
next
  case (Some r)
  show ?thesis
  proof (cases "h r = []")
    case True
    with assms Some show ?thesis by (simp add: retraining_wiring_events)
  next
    case False
    let ?sink = "create_or_update_sink w lsn (anomaly_log_destination pid ptn)
                   (monitoring_anomaly_log_filter ml (last (str_split CHR ''/'' job)) pid)"
    from assms Some False
    have "e \<in> set (events ?sink h)
          \<or> e \<in> set [Print (routed_message ptn), Print (retraining_message gp),
                       PPrint (h r), Print updating_message,
                       SubprocessRun [update_iam pid] True True DEVNULL STDOUT
                         (subprocess_run w [update_iam pid])]"
      by (cases "outcome ?sink h") (auto simp: retraining_wiring_events)
    then show ?thesis
      using sink_events_class [of e w lsn _ _ h] by auto
  qed
qed

lemma job_manager_events_class:
  "e \<in> set (events (create_or_update_monitoring_job w ae arp dt gp jdn lsn me mi ml pid ptn sr
                       st tf td) h) \<Longrightarrow>
     rank e = Some 1
     \<or> (\<exists>jl. e \<in> set (events (upsert_job w (job_args ae dt jdn mi sr st tf td) pid ml me jl) h))
     \<or> (\<exists>job. e \<in> set (events (retraining_wiring w arp gp lsn ml pid ptn job) h))"
  by (auto simp: create_or_update_monitoring_job_events split: sum.splits if_splits)

lemma job_manager_commands:
  assumes "SubprocessRun cmd sh ck out err rc
             \<in> set (events (create_or_update_monitoring_job w ae arp dt gp jdn lsn me mi ml pid
                              ptn sr st tf td) h)"
  shows "cmd = [update_iam pid]"
  using job_manager_events_class [OF assms]
  by (auto dest: upsert_events_class wiring_events_class simp: is_job_upsert_def)

text \<open>
  C9. Every command \<open>create_or_update_monitoring_job\<close> hands to the process executor is
  the one string built from \<open>project_id\<close> alone: it grants \<open>roles/pubsub.publisher\<close> on
  the project to \<open>cloud-logs@system.gserviceaccount.com\<close>. Two runs for the same project
  therefore execute the same command, whatever the topic names (and every other
  argument, the world and the store) are.
\<close>

theorem iam_grant_ignores_topic:
  assumes "SubprocessRun cmd sh ck out err rc
             \<in> set (events (create_or_update_monitoring_job w alert_emails auto_retraining_params
                drift_thresholds gs_auto_retraining_params_path job_display_name log_sink_name
                model_endpoint monitoring_interval monitoring_location project_id
                pubsub_topic_name sample_rate skew_thresholds target_field training_dataset) h)"
    and "SubprocessRun cmd' sh' ck' out' err' rc'
             \<in> set (events (create_or_update_monitoring_job w' alert_emails'
                auto_retraining_params' drift_thresholds' gs_auto_retraining_params_path'
                job_display_name' log_sink_name' model_endpoint' monitoring_interval'
                monitoring_location' project_id pubsub_topic_name' sample_rate'
                skew_thresholds' target_field' training_dataset') h')"
  shows "cmd = [''gcloud projects add-iam-policy-binding '' @ project_id @ '' ''
                  @ [backslash, newline]
                  @ ''--member='' @ [dquote]
                  @ ''serviceAccount:cloud-logs@system.gserviceaccount.com'' @ [dquote] @ '' ''
                  @ [backslash, newline]
                  @ ''--role='' @ [dquote] @ ''roles/pubsub.publisher'' @ [dquote]]
       \<and> cmd' = cmd"
  using job_manager_commands [OF assms(1)] job_manager_commands [OF assms(2)]
  by (simp add: update_iam_def cloud_logs_sa_def)

subsection \<open>The process executor\<close>

text \<open>
  C10. \<open>execute_process\<close> runs the command once, through the shell, with the exit status
  checked and with standard error sent to standard output, whether the output is
  suppressed (standard output to the null device) or not (standard output inherited).
  It raises a \<open>RuntimeError\<close> exactly when the exit status is not zero; the error's
  message ends with the text of the \<open>CalledProcessError\<close>, which is also its cause.
\<close>

theorem execute_process_streams:
  "events (execute_process w command to_null) h =
     [SubprocessRun [command] True True (if to_null then DEVNULL else Inherited) STDOUT
        (subprocess_run w [command])]
   \<and> ((\<exists>message cause. outcome (execute_process w command to_null) h
                           = Inl (RuntimeError message cause))
        \<longleftrightarrow> subprocess_run w [command] \<noteq> 0)
   \<and> (subprocess_run w [command] \<noteq> 0 \<longrightarrow>
        outcome (execute_process w command to_null) h =
          Inl (RuntimeError
                 (''Error executing process. ''
                    @ str_exc w (CalledProcessError [command] (subprocess_run w [command])))
                 (Some (CalledProcessError [command] (subprocess_run w [command])))))
   \<and> (subprocess_run w [command] = 0 \<longrightarrow>
        outcome (execute_process w command to_null) h = Inr ())"
  by (simp add: execute_process_run)

theorem execute_process_streams_witness:
  "subprocess_run failing_world [''false''] \<noteq> 0
   \<and> events (execute_process failing_world ''false'' False) empty_store =
       [SubprocessRun [''false''] True True Inherited STDOUT 1]
   \<and> outcome (execute_process failing_world ''false'' False) empty_store =
       Inl (RuntimeError (''Error executing process. Command returned non-zero exit status 1.'')
              (Some (CalledProcessError [''false''] 1)))
   \<and> subprocess_run example_world [''true''] = 0
   \<and> events (execute_process example_world ''true'' True) empty_store =
       [SubprocessRun [''true''] True True DEVNULL STDOUT 0]
   \<and> outcome (execute_process example_world ''true'' True) empty_store = Inr ()"
proof -
  have bad: "subprocess_run failing_world [''false''] \<noteq> 0"
    by (simp add: failing_world_def example_world_def)
  have good: "subprocess_run example_world [''true''] = 0"
    by (simp add: example_world_def)
  note t1 = execute_process_streams [of failing_world "''false''" False empty_store]
  note t2 = execute_process_streams [of example_world "''true''" True empty_store]
  from bad good t1 t2 show ?thesis
    by (simp add: failing_world_def example_world_def)
qed

lemma upsert_job_outcome:
  "outcome (upsert_job w args p l ep jl) h =
     (case jl of
        [] \<Rightarrow> Job_create w args p l ep
      | j # _ \<Rightarrow> Job_update w (last (str_split CHR ''/'' j)) args)"
  by (simp add: upsert_job_def run_simps Let_def split: sum.splits list.splits)

lemma create_or_update_sink_outcome:
  "outcome (create_or_update_sink w n d f) h =
     (case sink_exists w n of
        Inl e \<Rightarrow> Inl e
      | Inr True \<Rightarrow> sink_update w \<lparr>name = n, filter_ = f, destination = d\<rparr>
      | Inr False \<Rightarrow> sink_create w \<lparr>name = n, filter_ = f, destination = d\<rparr>)"
  by (simp add: create_or_update_sink_def run_simps Let_def split: sum.splits bool.splits)

lemma retraining_wiring_outcome:
  "outcome (retraining_wiring w arp gp lsn ml pid ptn job) h =
     (case arp of
        None \<Rightarrow> Inr ()
      | Some r \<Rightarrow>
          if h r = [] then Inr ()
          else (case outcome (create_or_update_sink w lsn (anomaly_log_destination pid ptn)
                         (monitoring_anomaly_log_filter ml (last (str_split CHR ''/'' job)) pid)) h of
                  Inl e \<Rightarrow> Inl e
                | Inr _ \<Rightarrow> outcome (execute_process w (update_iam pid) True) h))"
  by (simp add: retraining_wiring_def run_simps Let_def create_or_update_sink_store
        split: sum.splits option.splits)

lemma create_or_update_monitoring_job_outcome:
  "outcome (create_or_update_monitoring_job w ae arp dt gp jdn lsn me mi ml pid ptn sr st tf td) h =
     (case Endpoint_list w (endpoint_filter me) of
        Inl e \<Rightarrow> Inl e
      | Inr el \<Rightarrow>
          if el = [] then Inl (ValueError (endpoint_not_found me ml))
          else
            (case Endpoint_init w me of
               Inl e \<Rightarrow> Inl e
             | Inr _ \<Rightarrow>
                 (case Job_list w (job_filter jdn) of
                    Inl e \<Rightarrow> Inl e
                  | Inr jl \<Rightarrow>
                      (case outcome (upsert_job w (job_args ae dt jdn mi sr st tf td) pid ml me jl) h of
                           Inl e \<Rightarrow> Inl e
                         | Inr job \<Rightarrow> outcome (retraining_wiring w arp gp lsn ml pid ptn job) h))))"
  by (simp add: create_or_update_monitoring_job_stages run_simps upsert_job_store split: sum.splits)

lemmas stage_runs =
  create_or_update_monitoring_job_events create_or_update_monitoring_job_outcome
  upsert_job_events upsert_job_outcome retraining_wiring_events retraining_wiring_outcome
  create_or_update_sink_events create_or_update_sink_outcome execute_process_run

lemma example_job_events:
  "events (example_job example_world) example_store =
     [AiplatformInit ''p'' ''us-central1'',
      EndpointList (endpoint_filter ''projects/p/locations/us-central1/endpoints/123'')
        (Inr [''projects/p/locations/us-central1/endpoints/123'']),
      EndpointInit ''projects/p/locations/us-central1/endpoints/123'' (Inr ()),
      JobList (job_filter ''job1'') (Inr []),
      JobCreate (job_args None (Some [(''f1'', 1 / 10)]) ''job1'' 1 (4 / 5) (Some []) ''label''
                   ''bq://p.d.t'')
        ''p'' ''us-central1'' ''projects/p/locations/us-central1/endpoints/123''
        (Inr ''projects/p/locations/us-central1/modelDeploymentMonitoringJobs/456''),
      SinkExists ''sink1'' (Inr False),
      SinkCreate \<lparr>name = ''sink1'',
                   filter_ = monitoring_anomaly_log_filter ''us-central1'' ''456'' ''p'',
                   destination = anomaly_log_destination ''p'' ''topic1''\<rparr> (Inr ()),
      Print (created_sink_message ''sink1''),
      Print (routed_message ''topic1''),
      Print (retraining_message ''gs://b/params/retrain.json''),
      PPrint [(''a'', JInt 1)],
      Print updating_message,
      SubprocessRun [update_iam ''p''] True True DEVNULL STDOUT 0]"
  by (simp add: example_job_def example_config_def example_world_def example_store_def stage_runs)


lemma other_job_iam_grant:
  "SubprocessRun [update_iam ''p''] True True DEVNULL STDOUT 1
     \<in> set (events (create_or_update_monitoring_job failing_world None (Some 5) None
                      ''gs://x/y/z.json'' ''job9'' ''sink9'' ''e9'' 24 ''europe-west4'' ''p''
                      ''another-topic'' 1 None ''t'' ''d'') example_store)"
  by (simp add: failing_world_def example_world_def example_store_def stage_runs)

theorem iam_grant_ignores_topic_witness:
  "SubprocessRun [update_iam ''p''] True True DEVNULL STDOUT 0
     \<in> set (events (example_job example_world) example_store)
   \<and> SubprocessRun [update_iam ''p''] True True DEVNULL STDOUT 1
     \<in> set (events (create_or_update_monitoring_job failing_world None (Some 5) None
                      ''gs://x/y/z.json'' ''job9'' ''sink9'' ''e9'' 24 ''europe-west4'' ''p''
                      ''another-topic'' 1 None ''t'' ''d'') example_store)
   \<and> [update_iam ''p''] =
       [''gcloud projects add-iam-policy-binding '' @ ''p'' @ '' ''
          @ [backslash, newline]
          @ ''--member='' @ [dquote]
          @ ''serviceAccount:cloud-logs@system.gserviceaccount.com'' @ [dquote] @ '' ''
          @ [backslash, newline]
          @ ''--role='' @ [dquote] @ ''roles/pubsub.publisher'' @ [dquote]]"
proof -
  have m1: "SubprocessRun [update_iam ''p''] True True DEVNULL STDOUT 0
     \<in> set (events (create_or_update_monitoring_job example_world
                      (monitoring_alert_emails example_config)
                      (monitoring_auto_retraining_params example_config)
                      (monitoring_drift_thresholds example_config)
                      (monitoring_gs_auto_retraining_params_path example_config)
                      (monitoring_job_display_name example_config)
                      (monitoring_log_sink_name example_config)
                      (monitoring_model_endpoint example_config)
                      (monitoring_monitoring_interval example_config)
                      (monitoring_monitoring_location example_config)
                      ''p''
                      (gcp_pubsub_topic_name example_config)
                      (monitoring_sample_rate example_config)
                      (monitoring_skew_thresholds example_config)
                      (monitoring_target_field example_config)
                      (monitoring_training_dataset example_config)) example_store)"
    using example_job_events by (simp add: example_job_def example_config_def)
  have m1': "SubprocessRun [update_iam ''p''] True True DEVNULL STDOUT 0
     \<in> set (events (example_job example_world) example_store)"
    by (simp add: example_job_events)
  note t = iam_grant_ignores_topic [OF m1 other_job_iam_grant, THEN conjunct1]
  from m1' other_job_iam_grant t show ?thesis
    by (intro conjI)
qed

subsection \<open>The uploader and the script body\<close>

lemma upload_events:
  "events (upload_automatic_retraining_parameters w a gp sp b) h =
     FileWrite parameters_file
       (json_dumps (JDict (dict_setitem (h a) ''gs_pipeline_spec_path'' (JStr sp))) 4) ''w''
       (file_write w parameters_file
          (json_dumps (JDict (dict_setitem (h a) ''gs_pipeline_spec_path'' (JStr sp))) 4) ''w'') #
     (case file_write w parameters_file
             (json_dumps (JDict (dict_setitem (h a) ''gs_pipeline_spec_path'' (JStr sp))) 4) ''w'' of
        Some err \<Rightarrow> []
      | None \<Rightarrow>
          GetBucket b (get_bucket w b) #
          (case get_bucket w b of
             Inl e \<Rightarrow> []
           | Inr _ \<Rightarrow>
               [UploadFromFilename b (str_join ''/'' (drop 3 (str_split CHR ''/'' gp)))
                  parameters_file
                  (upload_from_filename w b (str_join ''/'' (drop 3 (str_split CHR ''/'' gp)))
                     parameters_file)]))"
  by (simp add: upload_automatic_retraining_parameters_def write_file_def run_simps Let_def
        split: sum.splits option.splits)

lemma upload_store:
  "store_after (upload_automatic_retraining_parameters w a gp sp b) h =
     h(a := dict_setitem (h a) ''gs_pipeline_spec_path'' (JStr sp))"
  by (simp add: upload_automatic_retraining_parameters_def write_file_def run_simps Let_def
        split: sum.splits option.splits)

lemma main_events:
  "events (main w c) h =
     (if truthy (map_option h (monitoring_auto_retraining_params c)) then
        events (upload_automatic_retraining_parameters w
                  (the (monitoring_auto_retraining_params c))
                  (monitoring_gs_auto_retraining_params_path c)
                  (pipelines_gs_pipeline_job_spec_path c) (gcp_storage_bucket_name c)) h
        @ (case outcome (upload_automatic_retraining_parameters w
                  (the (monitoring_auto_retraining_params c))
                  (monitoring_gs_auto_retraining_params_path c)
                  (pipelines_gs_pipeline_job_spec_path c) (gcp_storage_bucket_name c)) h of
             Inl e \<Rightarrow> []
           | Inr _ \<Rightarrow>
               events (create_or_update_monitoring_job w
                         (monitoring_alert_emails c) (monitoring_auto_retraining_params c)
                         (monitoring_drift_thresholds c)
                         (monitoring_gs_auto_retraining_params_path c)
                         (monitoring_job_display_name c) (monitoring_log_sink_name c)
                         (monitoring_model_endpoint c) (monitoring_monitoring_interval c)
                         (monitoring_monitoring_location c) (gcp_project_id c)
                         (gcp_pubsub_topic_name c) (monitoring_sample_rate c)
                         (monitoring_skew_thresholds c) (monitoring_target_field c)
                         (monitoring_training_dataset c))
                 (h(the (monitoring_auto_retraining_params c) :=
                      dict_setitem (h (the (monitoring_auto_retraining_params c)))
                        ''gs_pipeline_spec_path''
                        (JStr (pipelines_gs_pipeline_job_spec_path c)))))
      else
        events (create_or_update_monitoring_job w
                  (monitoring_alert_emails c) (monitoring_auto_retraining_params c)
                  (monitoring_drift_thresholds c)
                  (monitoring_gs_auto_retraining_params_path c)
                  (monitoring_job_display_name c) (monitoring_log_sink_name c)
                  (monitoring_model_endpoint c) (monitoring_monitoring_interval c)
                  (monitoring_monitoring_location c) (gcp_project_id c)
                  (gcp_pubsub_topic_name c) (monitoring_sample_rate c)
                  (monitoring_skew_thresholds c) (monitoring_target_field c)
                  (monitoring_training_dataset c)) h)"
  by (cases "monitoring_auto_retraining_params c")
     (simp_all add: main_def run_simps upload_store split: sum.splits)

lemma main_outcome:
  "outcome (main w c) h =
     (if truthy (map_option h (monitoring_auto_retraining_params c)) then
        (case outcome (upload_automatic_retraining_parameters w
                  (the (monitoring_auto_retraining_params c))
                  (monitoring_gs_auto_retraining_params_path c)
                  (pipelines_gs_pipeline_job_spec_path c) (gcp_storage_bucket_name c)) h of
             Inl e \<Rightarrow> Inl e
           | Inr _ \<Rightarrow>
               outcome (create_or_update_monitoring_job w
                         (monitoring_alert_emails c) (monitoring_auto_retraining_params c)
                         (monitoring_drift_thresholds c)
                         (monitoring_gs_auto_retraining_params_path c)
                         (monitoring_job_display_name c) (monitoring_log_sink_name c)
                         (monitoring_model_endpoint c) (monitoring_monitoring_interval c)
                         (monitoring_monitoring_location c) (gcp_project_id c)
                         (gcp_pubsub_topic_name c) (monitoring_sample_rate c)
                         (monitoring_skew_thresholds c) (monitoring_target_field c)
                         (monitoring_training_dataset c))
                 (h(the (monitoring_auto_retraining_params c) :=
                      dict_setitem (h (the (monitoring_auto_retraining_params c)))
                        ''gs_pipeline_spec_path''
                        (JStr (pipelines_gs_pipeline_job_spec_path c)))))
      else
        outcome (create_or_update_monitoring_job w
                  (monitoring_alert_emails c) (monitoring_auto_retraining_params c)
                  (monitoring_drift_thresholds c)
                  (monitoring_gs_auto_retraining_params_path c)
                  (monitoring_job_display_name c) (monitoring_log_sink_name c)
                  (monitoring_model_endpoint c) (monitoring_monitoring_interval c)
                  (monitoring_monitoring_location c) (gcp_project_id c)
                  (gcp_pubsub_topic_name c) (monitoring_sample_rate c)
                  (monitoring_skew_thresholds c) (monitoring_target_field c)
                  (monitoring_training_dataset c)) h)"
  by (cases "monitoring_auto_retraining_params c")
     (simp_all add: main_def run_simps upload_store split: sum.splits)

subsection \<open>Splitting and joining\<close>

lemma str_split_not_Nil: "str_split sep s \<noteq> []"
  by (induction s) (auto split: list.splits)

lemma str_split_no_sep: "sep \<notin> set s \<Longrightarrow> str_split sep s = [s]"
  by (induction s) auto

lemma str_split_segment:
  "sep \<notin> set s \<Longrightarrow> str_split sep (s @ sep # rest) = s # str_split sep rest"
  by (induction s) auto

lemma str_join_split: "str_join [sep] (str_split sep s) = s"
proof (induction s)
  case Nil
  show ?case by simp
next
  case (Cons c s)
  show ?case
  proof (cases "c = sep")
    case True
    with Cons show ?thesis
      by (cases "str_split sep s") (simp_all add: str_split_not_Nil)
  next
    case False
    obtain x xs where x: "str_split sep s = x # xs"
      using str_split_not_Nil [of sep s] by (cases "str_split sep s") auto
    with Cons False show ?thesis
      by (cases xs) simp_all
  qed
qed

lemma length_str_split: "length (str_split sep s) = Suc (count_list s sep)"
  by (induction s) (auto split: list.splits simp: str_split_not_Nil)

lemma dict_setitem_map_of: "map_of (dict_setitem d k v) = (map_of d)(k \<mapsto> v)"
  by (induction d) auto



lemma upload_outcome:
  "outcome (upload_automatic_retraining_parameters w a gp sp b) h =
     (case file_write w parameters_file
             (json_dumps (JDict (dict_setitem (h a) ''gs_pipeline_spec_path'' (JStr sp))) 4) ''w'' of
        Some err \<Rightarrow> Inl (OSError (''Error writing to file. '' @ err) (Some (OSError err None)))
      | None \<Rightarrow>
          (case get_bucket w b of
             Inl e \<Rightarrow> Inl e
           | Inr _ \<Rightarrow>
               upload_from_filename w b (str_join ''/'' (drop 3 (str_split CHR ''/'' gp)))
                     parameters_file))"
  by (simp add: upload_automatic_retraining_parameters_def write_file_def run_simps Let_def
        split: sum.splits option.splits)

text \<open>
  C6 (as amended). \<open>upload_automatic_retraining_parameters\<close> writes to the caller's
  dictionary itself: whatever the world answers, after the call the object passed in
  holds the key \<open>gs_pipeline_spec_path\<close> with the pipeline spec path, every other key
  keeps its value and its place, and no other object of the store changes.
\<close>

theorem upload_mutates_callers_params:
  "store_after (upload_automatic_retraining_parameters w auto_retraining_params
                  gs_auto_retraining_params_path gs_pipeline_job_spec_path storage_bucket_name) h
     = h(auto_retraining_params :=
           dict_setitem (h auto_retraining_params) ''gs_pipeline_spec_path''
             (JStr gs_pipeline_job_spec_path))
   \<and> map_of (store_after (upload_automatic_retraining_parameters w auto_retraining_params
                  gs_auto_retraining_params_path gs_pipeline_job_spec_path storage_bucket_name) h
               auto_retraining_params)
     = (map_of (h auto_retraining_params))
         (''gs_pipeline_spec_path'' \<mapsto> JStr gs_pipeline_job_spec_path)"
  by (simp add: upload_store dict_setitem_map_of)

text \<open>
  C6 as stated fails: the dictionary the caller passed differs after the call, and the
  script shows it, since the job manager later prints the same object with the added
  key.
\<close>

theorem upload_leaves_params_counterexample:
  "store_after (upload_automatic_retraining_parameters example_world 0
                  ''gs://b/params/retrain.json'' ''gs://b/spec.json'' ''b'') example_store 0
     \<noteq> example_store 0
   \<and> example_store 0 = [(''a'', JInt 1)]
   \<and> store_after (upload_automatic_retraining_parameters example_world 0
                  ''gs://b/params/retrain.json'' ''gs://b/spec.json'' ''b'') example_store 0
     = [(''a'', JInt 1), (''gs_pipeline_spec_path'', JStr ''gs://b/spec.json'')]
   \<and> PPrint [(''a'', JInt 1), (''gs_pipeline_spec_path'', JStr ''gs://b/spec.json'')]
       \<in> set (events (main example_world example_config) example_store)"
  by (simp add: upload_store example_store_def main_events upload_outcome stage_runs
        example_config_def example_world_def)

text \<open>
  C8. When the local file is written and the bucket is found,
  \<open>upload_automatic_retraining_parameters\<close> makes exactly one upload, of the local
  parameters file, to the bucket given, and the object name is the remote parameter
  path without its first three \<open>/\<close>-separated segments, the rest joined with \<open>/\<close>
  again: for a path \<open>s1/s2/s3/rest\<close> (no \<open>/\<close> in \<open>s1\<close>, \<open>s2\<close>, \<open>s3\<close>) the upload
  goes to \<open>rest\<close>, and for a path of three or fewer segments the upload is still made,
  to the empty name. A path has one segment more than it has \<open>/\<close> characters.
\<close>

theorem upload_object_name:
  assumes written:
      "file_write w parameters_file
         (json_dumps (JDict (dict_setitem (h auto_retraining_params) ''gs_pipeline_spec_path''
                               (JStr gs_pipeline_job_spec_path))) 4) ''w'' = None"
    and bucket: "get_bucket w storage_bucket_name = Inr ()"
  shows
  "let evs = events (upload_automatic_retraining_parameters w auto_retraining_params
                       gs_auto_retraining_params_path gs_pipeline_job_spec_path
                       storage_bucket_name) h;
       segments = str_split CHR ''/'' gs_auto_retraining_params_path;
       object_name = str_join ''/'' (drop 3 segments)
   in evs =
        [FileWrite parameters_file
           (json_dumps (JDict (dict_setitem (h auto_retraining_params) ''gs_pipeline_spec_path''
                                 (JStr gs_pipeline_job_spec_path))) 4) ''w'' None,
         GetBucket storage_bucket_name (Inr ()),
         UploadFromFilename storage_bucket_name object_name parameters_file
           (upload_from_filename w storage_bucket_name object_name parameters_file)]
    \<and> (\<forall>s1 s2 s3 rest.
          gs_auto_retraining_params_path = s1 @ ''/'' @ s2 @ ''/'' @ s3 @ ''/'' @ rest
          \<and> CHR ''/'' \<notin> set s1 \<and> CHR ''/'' \<notin> set s2 \<and> CHR ''/'' \<notin> set s3 \<longrightarrow>
          UploadFromFilename storage_bucket_name rest parameters_file
            (upload_from_filename w storage_bucket_name rest parameters_file) \<in> set evs)
    \<and> (length segments \<le> 3 \<longrightarrow>
          UploadFromFilename storage_bucket_name [] parameters_file
            (upload_from_filename w storage_bucket_name [] parameters_file) \<in> set evs)
    \<and> (\<forall>bucket filename local answer.
          UploadFromFilename bucket filename local answer \<in> set evs \<longrightarrow>
          bucket = storage_bucket_name \<and> filename = object_name \<and> local = parameters_file)
    \<and> length segments = Suc (count_list gs_auto_retraining_params_path CHR ''/'')"
proof -
  define body where "body = json_dumps (JDict (dict_setitem (h auto_retraining_params)
       ''gs_pipeline_spec_path'' (JStr gs_pipeline_job_spec_path))) 4"
  define segments where "segments = str_split CHR ''/'' gs_auto_retraining_params_path"
  define object_name where "object_name = str_join ''/'' (drop 3 segments)"
  define evs where "evs = events (upload_automatic_retraining_parameters w auto_retraining_params
                       gs_auto_retraining_params_path gs_pipeline_job_spec_path
                       storage_bucket_name) h"
  have shape: "evs =
        [FileWrite parameters_file body ''w'' None,
         GetBucket storage_bucket_name (Inr ()),
         UploadFromFilename storage_bucket_name object_name parameters_file
           (upload_from_filename w storage_bucket_name object_name parameters_file)]"
    unfolding evs_def upload_events
    using assms by (simp add: body_def object_name_def segments_def)
  have long: "object_name = rest"
    if "gs_auto_retraining_params_path = s1 @ ''/'' @ s2 @ ''/'' @ s3 @ ''/'' @ rest
          \<and> CHR ''/'' \<notin> set s1 \<and> CHR ''/'' \<notin> set s2 \<and> CHR ''/'' \<notin> set s3"
    for s1 s2 s3 rest
    using that by (simp add: object_name_def segments_def str_split_segment str_join_split)
  have short: "object_name = []" if "length segments \<le> 3"
    using that by (simp add: object_name_def)
  have count: "length segments = Suc (count_list gs_auto_retraining_params_path CHR ''/'')"
    unfolding segments_def by (rule length_str_split)
  have up: "UploadFromFilename storage_bucket_name object_name parameters_file
           (upload_from_filename w storage_bucket_name object_name parameters_file) \<in> set evs"
    unfolding shape by simp
  have only: "bucket = storage_bucket_name \<and> filename = object_name \<and> local = parameters_file"
    if "UploadFromFilename bucket filename local answer \<in> set evs" for bucket filename local answer
    using that unfolding shape by simp
  from shape long short count up only show ?thesis
    unfolding Let_def evs_def [symmetric] segments_def [symmetric] object_name_def [symmetric]
      body_def [symmetric]
    by metis
qed

theorem upload_object_name_witness:
  "events (upload_automatic_retraining_parameters example_world 0
             ''gs://bucket/a/b.json'' ''gs://b/spec.json'' ''bucket'') example_store =
     [FileWrite parameters_file
        (json_dumps (JDict [(''a'', JInt 1), (''gs_pipeline_spec_path'', JStr ''gs://b/spec.json'')])
           4) ''w'' None,
      GetBucket ''bucket'' (Inr ()),
      UploadFromFilename ''bucket'' ''a/b.json'' parameters_file (Inr ())]
   \<and> UploadFromFilename ''bucket'' [] parameters_file (Inr ())
       \<in> set (events (upload_automatic_retraining_parameters example_world 0
                        ''gs://bucket'' ''gs://b/spec.json'' ''bucket'') example_store)"
proof -
  have written: "file_write example_world parameters_file
         (json_dumps (JDict (dict_setitem (example_store 0) ''gs_pipeline_spec_path''
                               (JStr ''gs://b/spec.json''))) 4) ''w'' = None"
    and bucket: "get_bucket example_world ''bucket'' = Inr ()"
    and answer: "upload_from_filename example_world b n l = Inr ()" for b n l
    by (simp_all add: example_world_def)
  have params: "dict_setitem (example_store 0) ''gs_pipeline_spec_path'' (JStr ''gs://b/spec.json'')
      = [(''a'', JInt 1), (''gs_pipeline_spec_path'', JStr ''gs://b/spec.json'')]"
    by (simp add: example_store_def)
  have name: "str_join ''/'' (drop 3 (str_split CHR ''/'' ''gs://bucket/a/b.json'')) = ''a/b.json''"
    by simp
  have short: "length (str_split CHR ''/'' ''gs://bucket'') \<le> 3"
    by simp
  note t1 = upload_object_name [where w = example_world and h = example_store
              and auto_retraining_params = 0 and gs_pipeline_job_spec_path = "''gs://b/spec.json''"
              and storage_bucket_name = "''bucket''"
              and gs_auto_retraining_params_path = "''gs://bucket/a/b.json''",
              OF written bucket, unfolded Let_def answer params name]
  note t2 = upload_object_name [where w = example_world and h = example_store
              and auto_retraining_params = 0 and gs_pipeline_job_spec_path = "''gs://b/spec.json''"
              and storage_bucket_name = "''bucket''"
              and gs_auto_retraining_params_path = "''gs://bucket''",
              OF written bucket, unfolded Let_def answer]
  from t1 have 1: "events (upload_automatic_retraining_parameters example_world 0
             ''gs://bucket/a/b.json'' ''gs://b/spec.json'' ''bucket'') example_store =
     [FileWrite parameters_file
        (json_dumps (JDict [(''a'', JInt 1), (''gs_pipeline_spec_path'', JStr ''gs://b/spec.json'')])
           4) ''w'' None,
      GetBucket ''bucket'' (Inr ()),
      UploadFromFilename ''bucket'' ''a/b.json'' parameters_file (Inr ())]"
    by blast
  from t2 short have 2: "UploadFromFilename ''bucket'' [] parameters_file (Inr ())
       \<in> set (events (upload_automatic_retraining_parameters example_world 0
                        ''gs://bucket'' ''gs://b/spec.json'' ''bucket'') example_store)"
    by blast
  from 1 2 show ?thesis by blast
qed

subsection \<open>The order of the stages\<close>

lemma map_filter_append: "List.map_filter f (xs @ ys) = List.map_filter f xs @ List.map_filter f ys"
  by (simp add: List.map_filter_def)

lemma sink_ranks:
  "List.map_filter rank (events (create_or_update_sink w n d f) h) =
     (case sink_exists w n of Inl e \<Rightarrow> [3] | Inr _ \<Rightarrow> [3, 3])"
  by (simp add: create_or_update_sink_events List.map_filter_simps
        split: sum.split bool.split)

lemma upsert_ranks:
  "List.map_filter rank (events (upsert_job w args p l ep jl) h) = [2]"
  by (simp add: upsert_job_events List.map_filter_simps split: sum.split list.split)

lemma wiring_ranks:
  "List.map_filter rank (events (retraining_wiring w arp gp lsn ml pid ptn job) h) =
     (case arp of
        None \<Rightarrow> []
      | Some r \<Rightarrow>
          if h r = [] then []
          else (case sink_exists w lsn of
                  Inl e \<Rightarrow> [3]
                | Inr _ \<Rightarrow>
                    (case outcome (create_or_update_sink w lsn (anomaly_log_destination pid ptn)
                            (monitoring_anomaly_log_filter ml (last (str_split CHR ''/'' job)) pid)) h of
                       Inl e \<Rightarrow> [3, 3]
                     | Inr _ \<Rightarrow> [3, 3, 4])))"
  by (simp add: retraining_wiring_events map_filter_append sink_ranks List.map_filter_simps
        create_or_update_sink_outcome
        split: sum.split option.split)

lemma wiring_ranks_sorted:
  "sorted (List.map_filter rank (events (retraining_wiring w arp gp lsn ml pid ptn job) h))"
  by (cases arp) (simp_all add: wiring_ranks split: sum.split)

lemma wiring_ranks_ge:
  "x \<in> set (List.map_filter rank (events (retraining_wiring w arp gp lsn ml pid ptn job) h))
     \<Longrightarrow> 3 \<le> x"
  by (cases arp) (auto simp: wiring_ranks split: sum.splits if_splits)

lemma job_manager_ranks:
  "List.map_filter rank
     (events (create_or_update_monitoring_job w ae arp dt gp jdn lsn me mi ml pid ptn sr st tf td) h) =
     1 # 1 #
     (case Endpoint_list w (endpoint_filter me) of
        Inl e \<Rightarrow> []
      | Inr el \<Rightarrow>
          if el = [] then []
          else 1 #
            (case Endpoint_init w me of
               Inl e \<Rightarrow> []
             | Inr _ \<Rightarrow>
                 1 #
                 (case Job_list w (job_filter jdn) of
                    Inl e \<Rightarrow> []
                  | Inr jl \<Rightarrow>
                      2 #
                      (case outcome (upsert_job w (job_args ae dt jdn mi sr st tf td) pid ml me jl) h of
                           Inl e \<Rightarrow> []
                         | Inr job \<Rightarrow>
                             List.map_filter rank
                               (events (retraining_wiring w arp gp lsn ml pid ptn job) h)))))"
  by (simp add: create_or_update_monitoring_job_events map_filter_append upsert_ranks
        List.map_filter_simps split: sum.split)

lemma job_manager_ranks_sorted:
  "sorted (List.map_filter rank
     (events (create_or_update_monitoring_job w ae arp dt gp jdn lsn me mi ml pid ptn sr st tf td) h))"
  using wiring_ranks_sorted [of w arp gp lsn ml pid ptn _ h]
  by (auto simp: job_manager_ranks split: sum.split dest!: wiring_ranks_ge)

lemma job_manager_ranks_ge:
  "x \<in> set (List.map_filter rank
     (events (create_or_update_monitoring_job w ae arp dt gp jdn lsn me mi ml pid ptn sr st tf td) h))
     \<Longrightarrow> 1 \<le> x"
  by (auto simp: job_manager_ranks split: sum.splits if_splits dest!: wiring_ranks_ge)

lemma upload_ranks:
  "set (List.map_filter rank (events (upload_automatic_retraining_parameters w a gp sp b) h)) = {0}"
  by (auto simp: upload_events List.map_filter_simps split: option.split sum.split)

lemma upload_events_class:
  "e \<in> set (events (upload_automatic_retraining_parameters w a gp sp b) h) \<Longrightarrow> rank e = Some 0"
  by (auto simp: upload_events split: option.splits sum.splits)

lemma dict_setitem_not_Nil: "dict_setitem d k v \<noteq> []"
  by (cases d) (auto split: if_splits)

lemma sorted_constant: "set xs \<subseteq> {k} \<Longrightarrow> sorted xs"
  by (induction xs) auto

lemma main_ranks_sorted: "sorted (List.map_filter rank (events (main w c) h))"
  by (auto simp: main_events map_filter_append sorted_append upload_ranks job_manager_ranks_sorted
        intro: sorted_constant split: sum.split dest!: job_manager_ranks_ge)

lemma upload_step_rank: "is_upload_step e \<Longrightarrow> \<exists>a. rank e = Some a \<and> a \<le> 0"
  by (cases e) simp_all

lemma job_upsert_rank: "is_job_upsert e \<Longrightarrow> rank e = Some 2"
  by (cases e) (simp_all add: is_job_upsert_def)

lemma sink_step_rank: "is_sink_step e \<Longrightarrow> rank e = Some 3"
  by (cases e) simp_all

lemma iam_grant_rank: "is_iam_grant e \<Longrightarrow> rank e = Some 4"
  by (cases e) simp_all

lemma main_order:
  "all_before is_upload_step is_job_upsert (events (main w c) h)"
  "all_before is_job_upsert is_sink_step (events (main w c) h)"
  "all_before is_job_upsert is_iam_grant (events (main w c) h)"
proof -
  show "all_before is_upload_step is_job_upsert (events (main w c) h)"
    by (rule all_before_ranks [OF main_ranks_sorted, where k = 0])
       (auto dest: upload_step_rank job_upsert_rank)
  show "all_before is_job_upsert is_sink_step (events (main w c) h)"
    by (rule all_before_ranks [OF main_ranks_sorted, where k = 2])
       (auto dest: sink_step_rank job_upsert_rank)
  show "all_before is_job_upsert is_iam_grant (events (main w c) h)"
    by (rule all_before_ranks [OF main_ranks_sorted, where k = 2])
       (auto dest: iam_grant_rank job_upsert_rank)
qed


lemma wiring_skipped:
  "\<not> truthy (map_option h arp) \<Longrightarrow> events (retraining_wiring w arp gp lsn ml pid ptn job) h = []"
  by (cases arp) (simp_all add: retraining_wiring_events)

lemma rank_1_class:
  "rank e = Some 1 \<Longrightarrow> \<not> is_upload_step e \<and> \<not> is_sink_step e \<and> \<not> is_iam_grant e"
  by (cases e) simp_all

lemma job_upsert_class:
  "is_job_upsert e \<or> (\<exists>m. e = Print m) \<Longrightarrow>
     \<not> is_upload_step e \<and> \<not> is_sink_step e \<and> \<not> is_iam_grant e"
  by (cases e) (simp_all add: is_job_upsert_def)

lemma job_manager_without_retraining:
  assumes "\<not> truthy (map_option h arp)"
    and "e \<in> set (events (create_or_update_monitoring_job w ae arp dt gp jdn lsn me mi ml pid ptn sr
                       st tf td) h)"
  shows "\<not> is_upload_step e \<and> \<not> is_sink_step e \<and> \<not> is_iam_grant e"
proof -
  from job_manager_events_class [OF assms(2)] wiring_skipped [OF assms(1)]
  have "rank e = Some 1
     \<or> (\<exists>jl. e \<in> set (events (upsert_job w (job_args ae dt jdn mi sr st tf td) pid ml me jl) h))"
    by simp
  then show ?thesis
    using rank_1_class [of e] job_upsert_class [of e] upsert_events_class [of e]
    by blast
qed

lemma rank_member:
  "r \<in> set (List.map_filter rank evs) \<longleftrightarrow> (\<exists>e \<in> set evs. rank e = Some r)"
  by (induction evs) (auto simp: List.map_filter_simps split: option.splits)

lemma rank_job_upsert: "rank e = Some 2 \<longleftrightarrow> is_job_upsert e"
  by (cases e) (simp_all add: is_job_upsert_def)

lemma job_manager_upsert_or_lookups:
  "2 \<in> set (List.map_filter rank
     (events (create_or_update_monitoring_job w ae arp dt gp jdn lsn me mi ml pid ptn sr st tf td) h))
   \<or> set (List.map_filter rank
     (events (create_or_update_monitoring_job w ae arp dt gp jdn lsn me mi ml pid ptn sr st tf td) h))
       \<subseteq> {1}"
  by (cases "Endpoint_list w (endpoint_filter me)"; cases "Endpoint_init w me";
      cases "Job_list w (job_filter jdn)")
     (simp_all add: job_manager_ranks)

lemma job_manager_upsert_reached:
  assumes "x \<in> set (List.map_filter rank
     (events (create_or_update_monitoring_job w ae arp dt gp jdn lsn me mi ml pid ptn sr st tf td) h))"
    and "3 \<le> x"
  shows "2 \<in> set (List.map_filter rank
     (events (create_or_update_monitoring_job w ae arp dt gp jdn lsn me mi ml pid ptn sr st tf td) h))"
  using assms job_manager_upsert_or_lookups [of w ae arp dt gp jdn lsn me mi ml pid ptn sr st tf td h]
  by auto

lemma job_manager_upsert_precedes:
  assumes "e \<in> set (events (create_or_update_monitoring_job w ae arp dt gp jdn lsn me mi ml pid ptn sr
                       st tf td) h)"
    and "is_sink_step e \<or> is_iam_grant e"
  shows "\<exists>e' \<in> set (events (create_or_update_monitoring_job w ae arp dt gp jdn lsn me mi ml pid ptn sr
                       st tf td) h). is_job_upsert e'"
proof -
  from assms(2) obtain x where x: "rank e = Some x" "3 \<le> x"
    by (auto dest: sink_step_rank iam_grant_rank)
  with assms(1) have "x \<in> set (List.map_filter rank
     (events (create_or_update_monitoring_job w ae arp dt gp jdn lsn me mi ml pid ptn sr st tf td) h))"
    by (auto simp: rank_member)
  from job_manager_upsert_reached [OF this x(2)] show ?thesis
    by (simp add: rank_member rank_job_upsert)
qed

lemma sink_success:
  assumes "outcome (create_or_update_sink w n d f) h = Inr ()"
  shows "\<exists>e \<in> set (events (create_or_update_sink w n d f) h). is_sink_write e"
proof (cases "sink_exists w n")
  case (Inl e)
  with assms show ?thesis by (simp add: create_or_update_sink_outcome)
next
  case (Inr ex)
  then show ?thesis
    by (cases ex) (simp_all add: create_or_update_sink_events)
qed

lemma wiring_success:
  assumes "outcome (retraining_wiring w (Some r) gp lsn ml pid ptn job) h = Inr ()"
    and "h r \<noteq> []"
  shows "(\<exists>e \<in> set (events (retraining_wiring w (Some r) gp lsn ml pid ptn job) h). is_sink_write e)
       \<and> (\<exists>e \<in> set (events (retraining_wiring w (Some r) gp lsn ml pid ptn job) h). is_iam_grant e)"
proof -
  let ?sink = "create_or_update_sink w lsn (anomaly_log_destination pid ptn)
                 (monitoring_anomaly_log_filter ml (last (str_split CHR ''/'' job)) pid)"
  from assms have ok: "outcome ?sink h = Inr ()"
    by (cases "outcome ?sink h") (simp_all add: retraining_wiring_outcome)
  with assms(2) have evs: "events (retraining_wiring w (Some r) gp lsn ml pid ptn job) h
      = events ?sink h
        @ [Print (routed_message ptn), Print (retraining_message gp), PPrint (h r),
           Print updating_message,
           SubprocessRun [update_iam pid] True True DEVNULL STDOUT
             (subprocess_run w [update_iam pid])]"
    by (simp add: retraining_wiring_events)
  from sink_success [OF ok] show ?thesis
    unfolding evs by auto
qed

lemma job_manager_success:
  assumes "outcome (create_or_update_monitoring_job w ae (Some r) dt gp jdn lsn me mi ml pid ptn sr
                       st tf td) h = Inr ()"
    and "h r \<noteq> []"
  shows "(\<exists>e \<in> set (events (create_or_update_monitoring_job w ae (Some r) dt gp jdn lsn me mi ml
                              pid ptn sr st tf td) h). is_job_upsert e)
       \<and> (\<exists>e \<in> set (events (create_or_update_monitoring_job w ae (Some r) dt gp jdn lsn me mi ml
                              pid ptn sr st tf td) h). is_sink_write e)
       \<and> (\<exists>e \<in> set (events (create_or_update_monitoring_job w ae (Some r) dt gp jdn lsn me mi ml
                              pid ptn sr st tf td) h). is_iam_grant e)"
proof -
  from assms(1) obtain el jl job where
    el: "Endpoint_list w (endpoint_filter me) = Inr el" "el \<noteq> []"
    and ei: "Endpoint_init w me = Inr ()"
    and jl: "Job_list w (job_filter jdn) = Inr jl"
    and up: "outcome (upsert_job w (job_args ae dt jdn mi sr st tf td) pid ml me jl) h = Inr job"
    and wi: "outcome (retraining_wiring w (Some r) gp lsn ml pid ptn job) h = Inr ()"
    by (simp add: create_or_update_monitoring_job_outcome split: sum.splits if_splits)
  have evs: "events (create_or_update_monitoring_job w ae (Some r) dt gp jdn lsn me mi ml
                              pid ptn sr st tf td) h
        = [AiplatformInit pid ml, EndpointList (endpoint_filter me) (Inr el),
           EndpointInit me (Inr ()), JobList (job_filter jdn) (Inr jl)]
          @ events (upsert_job w (job_args ae dt jdn mi sr st tf td) pid ml me jl) h
          @ events (retraining_wiring w (Some r) gp lsn ml pid ptn job) h"
    using el ei jl up by (simp add: create_or_update_monitoring_job_events)
  have "\<exists>e \<in> set (events (upsert_job w (job_args ae dt jdn mi sr st tf td) pid ml me jl) h).
          is_job_upsert e"
    by (simp add: upsert_job_events is_job_upsert_def split: list.split sum.split)
  with wiring_success [OF wi assms(2)] show ?thesis
    unfolding evs by auto
qed


text \<open>
  C4. When \<open>auto_retraining_params\<close> is absent or empty, the script makes no call of the
  uploader, of the log-sink manager or of the process executor. When it is non-empty,
  the script starts with the uploader; every uploader call comes before every job
  create or update call, and every log-sink call and the IAM grant come after it (they
  occur only in runs that made a job create or update call); a run that ends without an
  exception has made a job create or update call, a sink create or update call and the
  IAM grant.
\<close>

theorem retraining_steps_order:
  "let evs = events (main w config) h;
       retraining = truthy (map_option h (monitoring_auto_retraining_params config))
   in (\<not> retraining \<longrightarrow>
         (\<forall>e \<in> set evs. \<not> is_upload_step e \<and> \<not> is_sink_step e \<and> \<not> is_iam_grant e))
    \<and> (retraining \<longrightarrow>
         evs \<noteq> [] \<and> is_upload_step (hd evs)
       \<and> all_before is_upload_step is_job_upsert evs
       \<and> all_before is_job_upsert is_sink_step evs
       \<and> all_before is_job_upsert is_iam_grant evs
       \<and> (\<forall>e \<in> set evs. is_sink_step e \<or> is_iam_grant e \<longrightarrow> (\<exists>e' \<in> set evs. is_job_upsert e'))
       \<and> (outcome (main w config) h = Inr () \<longrightarrow>
            (\<exists>e \<in> set evs. is_job_upsert e) \<and> (\<exists>e \<in> set evs. is_sink_write e)
            \<and> (\<exists>e \<in> set evs. is_iam_grant e)))"
proof -
  let ?evs = "events (main w config) h"
  let ?arp = "monitoring_auto_retraining_params config"
  have skipped: "\<forall>e \<in> set ?evs. \<not> is_upload_step e \<and> \<not> is_sink_step e \<and> \<not> is_iam_grant e"
    if "\<not> truthy (map_option h ?arp)"
    using that job_manager_without_retraining [OF that]
    by (auto simp: main_events)
  have start: "?evs \<noteq> [] \<and> is_upload_step (hd ?evs)" if "truthy (map_option h ?arp)"
    using that by (simp add: main_events upload_events)
  have after: "\<forall>e \<in> set ?evs. is_sink_step e \<or> is_iam_grant e \<longrightarrow> (\<exists>e' \<in> set ?evs. is_job_upsert e')"
    if t: "truthy (map_option h ?arp)"
  proof (intro ballI impI)
    fix e assume e: "e \<in> set ?evs" and late: "is_sink_step e \<or> is_iam_grant e"
    let ?up = "upload_automatic_retraining_parameters w (the ?arp)
                 (monitoring_gs_auto_retraining_params_path config)
                 (pipelines_gs_pipeline_job_spec_path config) (gcp_storage_bucket_name config)"
    from late have "rank e \<noteq> Some 0"
      by (auto dest: sink_step_rank iam_grant_rank)
    then have "e \<notin> set (events ?up h)"
      by (auto dest: upload_events_class)
    with e t obtain h' where h': "outcome ?up h = Inr ()"
      "e \<in> set (events (create_or_update_monitoring_job w
                         (monitoring_alert_emails config) ?arp
                         (monitoring_drift_thresholds config)
                         (monitoring_gs_auto_retraining_params_path config)
                         (monitoring_job_display_name config) (monitoring_log_sink_name config)
                         (monitoring_model_endpoint config) (monitoring_monitoring_interval config)
                         (monitoring_monitoring_location config) (gcp_project_id config)
                         (gcp_pubsub_topic_name config) (monitoring_sample_rate config)
                         (monitoring_skew_thresholds config) (monitoring_target_field config)
                         (monitoring_training_dataset config)) h')"
      "h' = h(the ?arp := dict_setitem (h (the ?arp)) ''gs_pipeline_spec_path''
                        (JStr (pipelines_gs_pipeline_job_spec_path config)))"
      by (cases "outcome ?up h") (auto simp: main_events)
    from job_manager_upsert_precedes [OF h'(2) late] h'(1) h'(3) t
    show "\<exists>e' \<in> set ?evs. is_job_upsert e'"
      by (auto simp: main_events)
  qed
  have completed: "(\<exists>e \<in> set ?evs. is_job_upsert e) \<and> (\<exists>e \<in> set ?evs. is_sink_write e)
            \<and> (\<exists>e \<in> set ?evs. is_iam_grant e)"
    if t: "truthy (map_option h ?arp)" and ok: "outcome (main w config) h = Inr ()"
  proof -
    from t obtain r where r: "?arp = Some r" "h r \<noteq> []"
      by (cases ?arp) auto
    let ?up = "upload_automatic_retraining_parameters w r
                 (monitoring_gs_auto_retraining_params_path config)
                 (pipelines_gs_pipeline_job_spec_path config) (gcp_storage_bucket_name config)"
    let ?h' = "h(r := dict_setitem (h r) ''gs_pipeline_spec_path''
                        (JStr (pipelines_gs_pipeline_job_spec_path config)))"
    from ok t r have up: "outcome ?up h = Inr ()"
      by (cases "outcome ?up h") (simp_all add: main_outcome)
    with ok t r have job: "outcome (create_or_update_monitoring_job w
                         (monitoring_alert_emails config) (Some r)
                         (monitoring_drift_thresholds config)
                         (monitoring_gs_auto_retraining_params_path config)
                         (monitoring_job_display_name config) (monitoring_log_sink_name config)
                         (monitoring_model_endpoint config) (monitoring_monitoring_interval config)
                         (monitoring_monitoring_location config) (gcp_project_id config)
                         (gcp_pubsub_topic_name config) (monitoring_sample_rate config)
                         (monitoring_skew_thresholds config) (monitoring_target_field config)
                         (monitoring_training_dataset config)) ?h' = Inr ()"
      by (simp add: main_outcome)
    have ne: "?h' r \<noteq> []"
      by (simp add: dict_setitem_not_Nil)
    have evs: "set ?evs = set (events ?up h) \<union>
                 set (events (create_or_update_monitoring_job w
                         (monitoring_alert_emails config) (Some r)
                         (monitoring_drift_thresholds config)
                         (monitoring_gs_auto_retraining_params_path config)
                         (monitoring_job_display_name config) (monitoring_log_sink_name config)
                         (monitoring_model_endpoint config) (monitoring_monitoring_interval config)
                         (monitoring_monitoring_location config) (gcp_project_id config)
                         (gcp_pubsub_topic_name config) (monitoring_sample_rate config)
                         (monitoring_skew_thresholds config) (monitoring_target_field config)
                         (monitoring_training_dataset config)) ?h')"
      using up t r by (simp add: main_events)
    from job_manager_success [OF job ne] show ?thesis
      unfolding evs by blast
  qed
  from skipped start after completed main_order [of w config h] show ?thesis
    unfolding Let_def by blast
qed

lemma example_main_outcome:
  "outcome (main example_world example_config) example_store = Inr ()"
  by (simp add: main_outcome upload_outcome stage_runs example_config_def example_world_def
        example_store_def dict_setitem_not_Nil)

theorem retraining_steps_order_witness:
  "truthy (map_option example_store (monitoring_auto_retraining_params example_config))
   \<and> outcome (main example_world example_config) example_store = Inr ()
   \<and> is_upload_step (hd (events (main example_world example_config) example_store))
   \<and> all_before is_upload_step is_job_upsert
        (events (main example_world example_config) example_store)
   \<and> all_before is_job_upsert is_sink_step
        (events (main example_world example_config) example_store)
   \<and> all_before is_job_upsert is_iam_grant
        (events (main example_world example_config) example_store)
   \<and> (\<exists>e \<in> set (events (main example_world example_config) example_store). is_job_upsert e)
   \<and> (\<exists>e \<in> set (events (main example_world example_config) example_store). is_sink_write e)
   \<and> (\<exists>e \<in> set (events (main example_world example_config) example_store). is_iam_grant e)
   \<and> \<not> truthy (map_option empty_store (monitoring_auto_retraining_params example_config))
   \<and> \<not> list_ex (\<lambda>e. is_upload_step e \<or> is_sink_step e \<or> is_iam_grant e)
          (events (main example_world example_config) empty_store)"
proof -
  have on: "truthy (map_option example_store (monitoring_auto_retraining_params example_config))"
    by (simp add: example_config_def example_store_def)
  have off: "\<not> truthy (map_option empty_store (monitoring_auto_retraining_params example_config))"
    by (simp add: example_config_def empty_store_def)
  note t1 = retraining_steps_order [of example_world example_config example_store,
              unfolded Let_def, THEN conjunct2, rule_format, OF on]
  note t2 = retraining_steps_order [of example_world example_config empty_store,
              unfolded Let_def, THEN conjunct1, rule_format, OF off]
  from t2 have none: "\<not> list_ex (\<lambda>e. is_upload_step e \<or> is_sink_step e \<or> is_iam_grant e)
          (events (main example_world example_config) empty_store)"
    by (auto simp: list_ex_iff)
  from t1 example_main_outcome
  have some: "(\<exists>e \<in> set (events (main example_world example_config) example_store). is_job_upsert e)
   \<and> (\<exists>e \<in> set (events (main example_world example_config) example_store). is_sink_write e)
   \<and> (\<exists>e \<in> set (events (main example_world example_config) example_store). is_iam_grant e)"
    by blast
  from on off t1 none some example_main_outcome show ?thesis
    by blast
qed

section \<open>The parameters file read back\<close>

subsection \<open>Integers\<close>
















subsection \<open>Strings\<close>







lemma encode_basestring_ascii_Cons:
  "encode_basestring_ascii s = dquote # concat (map escape_char s) @ [dquote]"
  by (simp add: encode_basestring_ascii_def)

subsection \<open>White space\<close>


lemma value_start_not_ws: "value_start c \<Longrightarrow> \<not> is_ws c"
  by (auto simp: value_start_def is_ws_def dquote_def is_digit_def)

lemma skip_ws_value_start: "value_start c \<Longrightarrow> skip_ws (c # s) = c # s"
  by (simp add: value_start_not_ws)



subsection \<open>Dictionaries from pairs\<close>




subsection \<open>Reading back what the encoder wrote\<close>

















subsection \<open>The text is long enough to be its own fuel\<close>







end
